theory Spec2Isabelle
  imports Complex_Main
begin

section \<open>Common conventions\<close>

text \<open>
  Python exceptions are values: every function of the source that can raise returns
  \<open>error + 'a\<close>, with \<open>Inl\<close> carrying the exception. Python floats are idealised as
  \<open>real\<close>; vocabulary ids are dense indices and are modelled as \<open>nat\<close>.
\<close>

datatype error = IndexError | ZeroDivisionError | NameError | ValueError | FileNotFoundError

section \<open>executer.py: configuration check\<close>

text \<open>
  The fields of \<open>Execute\<close> that \<open>config_kge_sanity_checking\<close> reads or writes:
  \<open>self.args.batch_size\<close>, \<open>len(self.dataset.train_set)\<close>, \<open>self.args.model\<close>,
  \<open>self.scoring_technique\<close> and \<open>self.neg_ratio\<close> (which may be \<open>None\<close>).
\<close>

record execute =
  batch_size :: int
  train_set_len :: nat
  model_name :: string
  scoring_technique :: string
  neg_ratio :: "int option"

definition config_kge_sanity_checking :: "execute \<Rightarrow> execute" where
  "config_kge_sanity_checking self =
     (let self1 = (if batch_size self > int (train_set_len self)
                   then self\<lparr>batch_size := int (train_set_len self)\<rparr> else self);
          self2 = (if model_name self1 = ''Shallom'' \<and> scoring_technique self1 = ''NegSample''
                   then self1\<lparr>scoring_technique := ''KvsAll''\<rparr> else self1)
      in if scoring_technique self2 = ''KvsAll'' then self2\<lparr>neg_ratio := None\<rparr> else self2)"

section \<open>torch_trainer_ddp.py: batch unpacking\<close>

text \<open>
  A tensor is its payload together with the device it lives on; \<open>.to(gpu_id)\<close> changes
  the device only.
\<close>

type_synonym 'a tensor = "'a \<times> nat"

definition to_device :: "'a tensor \<Rightarrow> nat \<Rightarrow> 'a tensor" where
  "to_device t gpu_id = (fst t, gpu_id)"

text \<open>
  The first component of the returned pair is either \<open>x_batch\<close> or the pair
  \<open>(x_batch, y_idx_batch)\<close>.
\<close>

datatype 'a source = Plain "'a tensor" | WithIdx "'a tensor" "'a tensor"

text \<open>
  Name resolution in the \<open>else\<close> branch of \<open>extract_input_outputs\<close>: the local names are
  the parameters \<open>self\<close> and \<open>z\<close> (the branch binds nothing else), the global names are
  the imports and top-level definitions of the module. \<open>batch\<close> is not a builtin.
\<close>

definition module_globals :: "string list" where
  "module_globals =
     [''os'', ''sys'', ''torch'', ''time'', ''mp'', ''DDP'', ''ZeroRedundancyOptimizer'',
      ''dist'', ''np'', ''AbstractTrainer'', ''efficient_zero_grad'', ''Dataset'',
      ''DataLoader'', ''pd'', ''print_peak_memory'', ''TorchDDPTrainer'',
      ''distributed_training'', ''DDPTrainer'']"

definition lookup_name :: "string list \<Rightarrow> string \<Rightarrow> error + unit" where
  "lookup_name locals name =
     (if name \<in> set locals \<or> name \<in> set module_globals then Inr () else Inl NameError)"

fun extract_input_outputs :: "nat \<Rightarrow> 'a tensor list \<Rightarrow> error + ('a source \<times> 'a tensor)" where
  "extract_input_outputs gpu_id [x_batch, y_batch] =
     Inr (Plain (to_device x_batch gpu_id), to_device y_batch gpu_id)"
| "extract_input_outputs gpu_id [x_batch, y_idx_batch, y_batch] =
     Inr (WithIdx (to_device x_batch gpu_id) (to_device y_idx_batch gpu_id),
          to_device y_batch gpu_id)"
| "extract_input_outputs gpu_id z =
     (case lookup_name [''self'', ''z''] ''batch'' of
        Inl e \<Rightarrow> Inl e
      | Inr _ \<Rightarrow> Inl ValueError)"

section \<open>torch_trainer_ddp.py: the training loop\<close>

text \<open>
  The model object as the trainer sees it: its parameters (\<open>state_dict()\<close>) and its
  attribute \<open>loss_history\<close>. \<open>DistributedDataParallel(model)\<close> wraps it: the wrapped
  object is \<open>.module\<close>, and the wrapper can be given attributes of its own.
\<close>

record 'p kge_module =
  state_dict :: 'p
  loss_history :: "real list"

record 'p ddp =
  module :: "'p kge_module"
  ddp_loss_history :: "real list option"

text \<open>
  The fields of \<open>DDPTrainer\<close>. \<open>train_dataset_loader\<close> gives, for the epoch set on its
  sampler, the batches in order; a batch is a list of tensors. \<open>run_batch\<close> stands for
  \<open>_run_batch\<close>: forward pass, loss, backward pass with the gradient exchange, optimizer
  step. These are model and library code; for a fixed launch their effect on one worker
  is a function of the epoch, the position of the batch, the parameters, the optimizer
  state and the batch, and returns the new parameters, the new optimizer state and the
  batch loss. \<open>callback_log\<close> records every call \<open>c.on_train_epoch_end(None, module)\<close>;
  callbacks are taken to observe the module only.
\<close>

record ('p, 'o, 'a, 'c) ddp_trainer =
  gpu_id :: nat
  ddp_model :: "'p ddp"
  train_dataset_loader :: "nat \<Rightarrow> 'a tensor list list"
  optimizer :: 'o
  callbacks :: "'c list"
  num_epochs :: nat
  trainer_loss_history :: "real list"
  run_batch :: "nat \<Rightarrow> nat \<Rightarrow> 'p \<Rightarrow> 'o \<Rightarrow> 'a source \<Rightarrow> 'a tensor \<Rightarrow> 'p \<times> 'o \<times> real"
  callback_log :: "('c \<times> 'p kge_module) list"

definition DDPTrainer_init ::
  "'p kge_module \<Rightarrow> (nat \<Rightarrow> 'a tensor list list) \<Rightarrow> 'o \<Rightarrow> nat \<Rightarrow> 'c list \<Rightarrow> nat \<Rightarrow>
   (nat \<Rightarrow> nat \<Rightarrow> 'p \<Rightarrow> 'o \<Rightarrow> 'a source \<Rightarrow> 'a tensor \<Rightarrow> 'p \<times> 'o \<times> real) \<Rightarrow>
   ('p, 'o, 'a, 'c) ddp_trainer" where
  "DDPTrainer_init mdl loader opt rank cbs epochs step =
     \<lparr>gpu_id = rank, ddp_model = \<lparr>module = mdl, ddp_loss_history = None\<rparr>,
      train_dataset_loader = loader, optimizer = opt, callbacks = cbs, num_epochs = epochs,
      trainer_loss_history = [], run_batch = step, callback_log = []\<rparr>"

definition set_training_state ::
  "('p, 'o, 'a, 'c) ddp_trainer \<Rightarrow> 'p \<Rightarrow> 'o \<Rightarrow> ('p, 'o, 'a, 'c) ddp_trainer" where
  "set_training_state self p opt =
     self\<lparr>ddp_model := (ddp_model self)\<lparr>module := (module (ddp_model self))\<lparr>state_dict := p\<rparr>\<rparr>,
          optimizer := opt\<rparr>"

text \<open>
  The loop of \<open>_run_epoch\<close> over \<open>enumerate(self.train_dataset_loader)\<close>, carrying
  \<open>epoch_loss\<close> and the loop variable \<open>i\<close>, which keeps its last value after the loop
  (and its initial value \<open>0\<close> when there is no batch).
\<close>

fun epoch_loop ::
  "('p, 'o, 'a, 'c) ddp_trainer \<Rightarrow> nat \<Rightarrow> (nat \<times> 'a tensor list) list \<Rightarrow> real \<Rightarrow> nat \<Rightarrow>
   error + (('p, 'o, 'a, 'c) ddp_trainer \<times> real \<times> nat)" where
  "epoch_loop self epoch [] epoch_loss i = Inr (self, epoch_loss, i)"
| "epoch_loop self epoch ((j, z) # rest) epoch_loss i =
     (case extract_input_outputs (gpu_id self) z of
        Inl e \<Rightarrow> Inl e
      | Inr (source, targets) \<Rightarrow>
          (case run_batch self epoch j (state_dict (module (ddp_model self))) (optimizer self)
                  source targets of
             (p, opt, batch_loss) \<Rightarrow>
               epoch_loop (set_training_state self p opt) epoch rest (epoch_loss + batch_loss) j))"

definition run_epoch ::
  "('p, 'o, 'a, 'c) ddp_trainer \<Rightarrow> nat \<Rightarrow> error + (('p, 'o, 'a, 'c) ddp_trainer \<times> real)" where
  "run_epoch self epoch =
     (case epoch_loop self epoch (enumerate 0 (train_dataset_loader self epoch)) 0 0 of
        Inl e \<Rightarrow> Inl e
      | Inr (self', epoch_loss, i) \<Rightarrow> Inr (self', epoch_loss / real (i + 1)))"

text \<open>\<open>for c in self.callbacks: c.on_train_epoch_end(None, self.model.module)\<close>\<close>

fun call_on_train_epoch_end ::
  "('p, 'o, 'a, 'c) ddp_trainer \<Rightarrow> 'c list \<Rightarrow> ('p, 'o, 'a, 'c) ddp_trainer" where
  "call_on_train_epoch_end self [] = self"
| "call_on_train_epoch_end self (c # cs) =
     call_on_train_epoch_end
       (self\<lparr>callback_log := callback_log self @ [(c, module (ddp_model self))]\<rparr>) cs"

text \<open>The body of the loop of \<open>train\<close> for one epoch.\<close>

definition train_epoch ::
  "('p, 'o, 'a, 'c) ddp_trainer \<Rightarrow> nat \<Rightarrow> error + ('p, 'o, 'a, 'c) ddp_trainer" where
  "train_epoch self epoch =
     (case run_epoch self epoch of
        Inl e \<Rightarrow> Inl e
      | Inr (self', epoch_loss) \<Rightarrow>
          if gpu_id self' = 0 then
            (let m = module (ddp_model self');
                 self'' = self'\<lparr>ddp_model := (ddp_model self')
                            \<lparr>module := m\<lparr>loss_history := loss_history m @ [epoch_loss]\<rparr>\<rparr>\<rparr>
             in Inr (call_on_train_epoch_end self'' (callbacks self'')))
          else Inr self')"

fun train_loop ::
  "('p, 'o, 'a, 'c) ddp_trainer \<Rightarrow> nat list \<Rightarrow> error + ('p, 'o, 'a, 'c) ddp_trainer" where
  "train_loop self [] = Inr self"
| "train_loop self (epoch # epochs) =
     (case train_epoch self epoch of
        Inl e \<Rightarrow> Inl e
      | Inr self' \<Rightarrow> train_loop self' epochs)"

definition train :: "('p, 'o, 'a, 'c) ddp_trainer \<Rightarrow> error + ('p, 'o, 'a, 'c) ddp_trainer" where
  "train self = train_loop self [0..<num_epochs self]"

subsection \<open>Worker processes and the coordinator\<close>

text \<open>
  \<open>mp.spawn\<close> starts every worker in a process of its own: the worker receives a copy of
  the arguments, and what it does to its copy ends with the process. What a worker shares
  with the coordinator is the file system, of which only the file \<open>model.pt\<close> matters
  (\<open>None\<close>: no such file). \<open>distributed_training\<close> returns the trainer as the worker
  leaves it, for the properties to speak of, and the file system.
\<close>

definition distributed_training ::
  "nat \<Rightarrow> 'p kge_module \<Rightarrow> (nat \<Rightarrow> nat \<Rightarrow> 'a tensor list list) \<Rightarrow> ('p kge_module \<Rightarrow> 'o) \<Rightarrow>
   (nat \<Rightarrow> nat \<Rightarrow> nat \<Rightarrow> 'p \<Rightarrow> 'o \<Rightarrow> 'a source \<Rightarrow> 'a tensor \<Rightarrow> 'p \<times> 'o \<times> real) \<Rightarrow>
   'c list \<Rightarrow> nat \<Rightarrow> 'p option \<Rightarrow> error + (('p, 'o, 'a, 'c) ddp_trainer \<times> 'p option)" where
  "distributed_training rank mdl loaders configure_optimizers step cbs epochs model_pt =
     (let trainer = DDPTrainer_init mdl (loaders rank) (configure_optimizers mdl) rank cbs
                      epochs (step rank)
      in case train trainer of
           Inl e \<Rightarrow> Inl e
         | Inr trainer' \<Rightarrow>
             if rank = 0 then
               (let trainer'' = trainer'\<lparr>ddp_model := (ddp_model trainer')
                                  \<lparr>ddp_loss_history := Some (trainer_loss_history trainer')\<rparr>\<rparr>
                in Inr (trainer'', Some (state_dict (module (ddp_model trainer'')))))
             else Inr (trainer', model_pt))"

text \<open>
  \<open>mp.spawn(..., nprocs=world_size, join=True)\<close>: every rank runs; an exception in a
  worker is raised in the coordinator. Only the file system is handed on.
\<close>

fun spawn :: "(nat \<Rightarrow> 'f \<Rightarrow> error + ('w \<times> 'f)) \<Rightarrow> nat list \<Rightarrow> 'f \<Rightarrow> error + 'f" where
  "spawn fn [] fs = Inr fs"
| "spawn fn (rank # ranks) fs =
     (case fn rank fs of Inl e \<Rightarrow> Inl e | Inr (w, fs') \<Rightarrow> spawn fn ranks fs')"

text \<open>
  \<open>TorchDDPTrainer.fit\<close>, from the caller's model object and the file system to the
  caller's model object and the file system. \<open>torch.load\<close> of a missing file raises
  FileNotFoundError. The hooks \<open>on_fit_start\<close> and \<open>on_fit_end\<close> belong to
  \<open>AbstractTrainer\<close> and are not modelled.
\<close>

definition fit ::
  "nat \<Rightarrow> 'p kge_module \<Rightarrow> (nat \<Rightarrow> nat \<Rightarrow> 'a tensor list list) \<Rightarrow> ('p kge_module \<Rightarrow> 'o) \<Rightarrow>
   (nat \<Rightarrow> nat \<Rightarrow> nat \<Rightarrow> 'p \<Rightarrow> 'o \<Rightarrow> 'a source \<Rightarrow> 'a tensor \<Rightarrow> 'p \<times> 'o \<times> real) \<Rightarrow>
   'c list \<Rightarrow> nat \<Rightarrow> 'p option \<Rightarrow> error + ('p kge_module \<times> 'p option)" where
  "fit world_size mdl loaders configure_optimizers step cbs epochs model_pt =
     (case spawn (\<lambda>rank fs. distributed_training rank mdl loaders configure_optimizers step
                               cbs epochs fs) [0..<world_size] model_pt of
        Inl e \<Rightarrow> Inl e
      | Inr model_pt' \<Rightarrow>
          (case model_pt' of
             None \<Rightarrow> Inl FileNotFoundError
           | Some sd \<Rightarrow> Inr (mdl\<lparr>state_dict := sd\<rparr>, None)))"

text \<open>
  The batch losses of one epoch in order, as the loop meets them: the losses whose
  arithmetic mean the specification speaks of.
\<close>

fun batch_losses ::
  "('p, 'o, 'a, 'c) ddp_trainer \<Rightarrow> nat \<Rightarrow> (nat \<times> 'a tensor list) list \<Rightarrow> real list" where
  "batch_losses self epoch [] = []"
| "batch_losses self epoch ((j, z) # rest) =
     (case extract_input_outputs (gpu_id self) z of
        Inl e \<Rightarrow> []
      | Inr (source, targets) \<Rightarrow>
          (case run_batch self epoch j (state_dict (module (ddp_model self))) (optimizer self)
                  source targets of
             (p, opt, batch_loss) \<Rightarrow>
               batch_loss # batch_losses (set_training_state self p opt) epoch rest))"

section \<open>A concrete launch\<close>

text \<open>
  One worker, two epochs of two batches each. Every step adds one to the parameters (a
  counter); the loss of the batch at position \<open>i\<close> is \<open>i + 1\<close>. The caller's model starts
  with parameters \<open>0\<close> and an empty loss history, and no file \<open>model.pt\<close> exists.
\<close>

definition launch_model :: "nat kge_module" where
  "launch_model = \<lparr>state_dict = 0, loss_history = []\<rparr>"

definition launch_loaders :: "nat \<Rightarrow> nat \<Rightarrow> string tensor list list" where
  "launch_loaders rank epoch = [[(''x'', 0), (''y'', 0)], [(''x'', 0), (''y'', 0)]]"

definition launch_step ::
  "nat \<Rightarrow> nat \<Rightarrow> nat \<Rightarrow> nat \<Rightarrow> unit \<Rightarrow> string source \<Rightarrow> string tensor \<Rightarrow> nat \<times> unit \<times> real" where
  "launch_step rank epoch i p opt src tgt = (p + 1, (), real i + 1)"

text \<open>The trainer that the worker of a given rank builds in this launch, with one callback.\<close>

definition launch_trainer :: "nat \<Rightarrow> (nat, unit, string, string) ddp_trainer" where
  "launch_trainer rank =
     DDPTrainer_init launch_model (launch_loaders rank) () rank [''cb''] 2 (launch_step rank)"

text \<open>The optimizer of this launch has no state.\<close>

definition launch_configure_optimizers :: "nat kge_module \<Rightarrow> unit" where
  "launch_configure_optimizers mdl = ()"

section \<open>executer.py: filtered ranking\<close>

subsection \<open>Scores and the sort of the tensor library\<close>

text \<open>
  The raw scores a model returns are finite floats, idealised as reals. The evaluator
  overwrites entries of a score vector with \<open>float('-inf')\<close>, so a masked vector holds
  values of \<open>score\<close>.
\<close>

datatype score = NegInf | Fin real

fun score_less :: "score \<Rightarrow> score \<Rightarrow> bool" where
  "score_less NegInf NegInf = False"
| "score_less NegInf (Fin y) = True"
| "score_less (Fin x) NegInf = False"
| "score_less (Fin x) (Fin y) = (x < y)"

text \<open>
  \<open>torch.sort(predictions, descending=True)\<close> is library code. Its second result is taken
  as a parameter \<open>srt\<close> of the evaluator; what is known of it is its contract: the result
  lists every position of the vector once, and no later position holds a strictly
  greater score than an earlier one. The order among equal scores is left open.
\<close>

definition desc_argsort :: "score list \<Rightarrow> nat list \<Rightarrow> bool" where
  "desc_argsort xs idxs \<longleftrightarrow>
     distinct idxs \<and> set idxs = {0..<length xs} \<and>
     sorted_wrt (\<lambda>a b. \<not> score_less (xs ! a) (xs ! b)) idxs"

definition valid_sort :: "(score list \<Rightarrow> nat list) \<Rightarrow> bool" where
  "valid_sort srt \<longleftrightarrow> (\<forall>xs. desc_argsort xs (srt xs))"

text \<open>One sort that meets the contract: insertion sort, equal scores in index order.\<close>

fun insert_desc :: "score list \<Rightarrow> nat \<Rightarrow> nat list \<Rightarrow> nat list" where
  "insert_desc xs i [] = [i]"
| "insert_desc xs i (j # js) =
     (if score_less (xs ! i) (xs ! j) then j # insert_desc xs i js else i # j # js)"

definition stable_sort_desc :: "score list \<Rightarrow> nat list" where
  "stable_sort_desc xs = foldr (insert_desc xs) [0..<length xs] []"

subsection \<open>Masking and ranking one score vector\<close>

text \<open>\<open>predictions[filt] = float('-inf')\<close>: an index past the end raises IndexError.\<close>

fun mask_filt :: "score list \<Rightarrow> nat list \<Rightarrow> error + score list" where
  "mask_filt predictions [] = Inr predictions"
| "mask_filt predictions (f # filt) =
     (if f < length predictions then mask_filt (predictions[f := NegInf]) filt
      else Inl IndexError)"

text \<open>\<open>np.where(sort_idxs == t)[0][0]\<close>: the first position holding \<open>t\<close>; IndexError if none.\<close>

fun where_first :: "nat list \<Rightarrow> nat \<Rightarrow> error + nat" where
  "where_first [] t = Inl IndexError"
| "where_first (i # idxs) t =
     (if i = t then Inr 0
      else (case where_first idxs t of Inl e \<Rightarrow> Inl e | Inr k \<Rightarrow> Inr (Suc k)))"

text \<open>
  The five lines that both evaluators repeat for every score vector:
  \<^verbatim>\<open>
  target_value = predictions[t].item()
  predictions[filt] = -inf
  predictions[t] = target_value
  _, sort_idxs = torch.sort(predictions, descending=True)
  rank = np.where(sort_idxs == t)[0][0]
  \<close>
  \<open>masked_predictions\<close> is the vector handed to the sort, \<open>filtered_rank\<close> the 0-based
  rank.
\<close>

definition masked_predictions :: "real list \<Rightarrow> nat list \<Rightarrow> nat \<Rightarrow> error + score list" where
  "masked_predictions predictions filt t =
     (if t < length predictions then
        (let target_value = predictions ! t in
         case mask_filt (map Fin predictions) filt of
           Inl e \<Rightarrow> Inl e
         | Inr masked \<Rightarrow> Inr (masked[t := Fin target_value]))
      else Inl IndexError)"

definition filtered_rank ::
  "(score list \<Rightarrow> nat list) \<Rightarrow> real list \<Rightarrow> nat list \<Rightarrow> nat \<Rightarrow> error + nat" where
  "filtered_rank srt predictions filt t =
     (case masked_predictions predictions filt t of
        Inl e \<Rightarrow> Inl e
      | Inr masked \<Rightarrow> where_first (srt masked) t)"

subsection \<open>The model and the stored index\<close>

text \<open>
  A trained model, as far as the evaluators use it: the mode flag that \<open>model.eval()\<close>
  clears, and the two scoring entry points, whose results may depend on the mode.
  \<open>forward_k_vs_all\<close> is called with \<open>(e1_idx, rel_idx)\<close> or with \<open>(e1_idx, e2_idx)\<close>.
  The scoring functions are total here: the IndexError of an embedding lookup at an id
  outside the vocabulary belongs to the model's code and is not part of this model.
\<close>

datatype kvs_args = E1_Rel nat nat | E1_E2 nat nat

record kge_model =
  training :: bool
  forward_triples :: "bool \<Rightarrow> nat \<Rightarrow> nat \<Rightarrow> nat \<Rightarrow> real"
  forward_k_vs_all :: "bool \<Rightarrow> kvs_args \<Rightarrow> real list"

definition model_eval :: "kge_model \<Rightarrow> kge_model" where
  "model_eval m = m\<lparr>training := False\<rparr>"

type_synonym triple = "nat \<times> nat \<times> nat"

text \<open>The three index files of the storage folder; each may be absent.\<close>

record storage =
  idx_train_df :: "triple list option"
  idx_valid_df :: "triple list option"
  idx_test_df :: "triple list option"

definition deserialize_index_data :: "storage \<Rightarrow> error + triple list" where
  "deserialize_index_data st =
     (let m = (case idx_train_df st of Some d \<Rightarrow> [d] | None \<Rightarrow> []) @
              (case idx_valid_df st of Some d \<Rightarrow> [d] | None \<Rightarrow> []) @
              (case idx_test_df st of Some d \<Rightarrow> [d] | None \<Rightarrow> [])
      in if m = [] then Inl ValueError else Inr (concat m))"

text \<open>The three selections on the index, in row order and with repetitions.\<close>

definition filt_tails_of :: "triple list \<Rightarrow> nat \<Rightarrow> nat \<Rightarrow> nat list" where
  "filt_tails_of data s p =
     map (\<lambda>(s', p', o'). o') (filter (\<lambda>(s', p', o'). s' = s \<and> p' = p) data)"

definition filt_heads_of :: "triple list \<Rightarrow> nat \<Rightarrow> nat \<Rightarrow> nat list" where
  "filt_heads_of data p o1 =
     map (\<lambda>(s', p', o'). s') (filter (\<lambda>(s', p', o'). p' = p \<and> o' = o1) data)"

definition filt_relations_of :: "triple list \<Rightarrow> nat \<Rightarrow> nat \<Rightarrow> nat list" where
  "filt_relations_of data s o1 =
     map (\<lambda>(s', p', o'). p') (filter (\<lambda>(s', p', o'). s' = s \<and> o' = o1) data)"

record results =
  H_at_1 :: real
  H_at_3 :: real
  H_at_10 :: real
  MRR :: real

subsection \<open>evaluate_lp\<close>

text \<open>
  Step 2 of the loop body: the scores of all entities as tail of \<open>(s, p, _)\<close> and as
  head of \<open>(_, p, o)\<close>, in the order of \<open>torch.arange(0, num_entities)\<close>.
\<close>

definition predictions_tails :: "kge_model \<Rightarrow> nat \<Rightarrow> nat \<Rightarrow> nat \<Rightarrow> real list" where
  "predictions_tails m num_entities s p =
     map (\<lambda>e. forward_triples m (training m) s p e) [0..<num_entities]"

definition predictions_heads :: "kge_model \<Rightarrow> nat \<Rightarrow> nat \<Rightarrow> nat \<Rightarrow> real list" where
  "predictions_heads m num_entities p o1 =
     map (\<lambda>e. forward_triples m (training m) e p o1) [0..<num_entities]"

text \<open>
  Steps 3 and 4: the 1-based pair \<open>(filt_head_entity_rank, filt_tail_entity_rank)\<close> of
  one query triple; the tail rank is computed first.
\<close>

definition lp_ranks ::
  "(score list \<Rightarrow> nat list) \<Rightarrow> kge_model \<Rightarrow> nat \<Rightarrow> triple list \<Rightarrow> triple \<Rightarrow> error + (nat \<times> nat)" where
  "lp_ranks srt m num_entities data data_point =
     (case data_point of (s, p, o1) \<Rightarrow>
        (case filtered_rank srt (predictions_tails m num_entities s p)
                (filt_tails_of data s p) o1 of
           Inl e \<Rightarrow> Inl e
         | Inr filt_tail_entity_rank \<Rightarrow>
             (case filtered_rank srt (predictions_heads m num_entities p o1)
                     (filt_heads_of data p o1) s of
                Inl e \<Rightarrow> Inl e
              | Inr filt_head_entity_rank \<Rightarrow>
                  Inr (filt_head_entity_rank + 1, filt_tail_entity_rank + 1))))"

text \<open>
  \<open>for hits_level in range(1, 11)\<close>: \<open>hits\<close> is a dictionary from level to the list of
  the counts \<open>I\<close> appended so far; a level is touched only when \<open>I > 0\<close>.
\<close>

fun hits_update :: "(nat \<rightharpoonup> nat list) \<Rightarrow> nat \<Rightarrow> nat \<Rightarrow> nat list \<Rightarrow> (nat \<rightharpoonup> nat list)" where
  "hits_update hits h t [] = hits"
| "hits_update hits h t (hits_level # levels) =
     (let I = (if h \<le> hits_level then 1 else 0) + (if t \<le> hits_level then 1 else (0::nat))
      in hits_update
           (if I > 0
            then hits(hits_level \<mapsto> (case hits hits_level of None \<Rightarrow> [] | Some l \<Rightarrow> l) @ [I])
            else hits)
           h t levels)"

fun lp_loop ::
  "(score list \<Rightarrow> nat list) \<Rightarrow> kge_model \<Rightarrow> nat \<Rightarrow> triple list \<Rightarrow> triple list \<Rightarrow>
   (nat \<rightharpoonup> nat list) \<Rightarrow> real list \<Rightarrow> error + ((nat \<rightharpoonup> nat list) \<times> real list)" where
  "lp_loop srt m num_entities data [] hits reciprocal_ranks = Inr (hits, reciprocal_ranks)"
| "lp_loop srt m num_entities data (data_point # rest) hits reciprocal_ranks =
     (case lp_ranks srt m num_entities data data_point of
        Inl e \<Rightarrow> Inl e
      | Inr (filt_head_entity_rank, filt_tail_entity_rank) \<Rightarrow>
          lp_loop srt m num_entities data rest
            (hits_update hits filt_head_entity_rank filt_tail_entity_rank [1..<11])
            (reciprocal_ranks @
               [1 / real filt_head_entity_rank + 1 / real filt_tail_entity_rank]))"

definition hit_at :: "(nat \<rightharpoonup> nat list) \<Rightarrow> nat \<Rightarrow> nat \<Rightarrow> real" where
  "hit_at hits k n =
     (case hits k of Some l \<Rightarrow> real (sum_list l) / real (n * 2) | None \<Rightarrow> 0)"

text \<open>
  The evaluator returns the model, whose mode it has changed, and either the exception
  or the metrics. The first division is the one of the mean reciprocal rank; with no
  query triple it raises ZeroDivisionError.
\<close>

definition evaluate_lp ::
  "(score list \<Rightarrow> nat list) \<Rightarrow> storage \<Rightarrow> nat \<Rightarrow> kge_model \<Rightarrow> triple list \<Rightarrow>
   kge_model \<times> (error + results)" where
  "evaluate_lp srt st num_entities model triple_idx =
     (let m = model_eval model in
      (m,
       case deserialize_index_data st of
         Inl e \<Rightarrow> Inl e
       | Inr data \<Rightarrow>
           (case lp_loop srt m num_entities data triple_idx Map.empty [] of
              Inl e \<Rightarrow> Inl e
            | Inr (hits, reciprocal_ranks) \<Rightarrow>
                if length triple_idx * 2 = 0 then Inl ZeroDivisionError
                else Inr \<lparr>H_at_1 = hit_at hits 1 (length triple_idx),
                          H_at_3 = hit_at hits 3 (length triple_idx),
                          H_at_10 = hit_at hits 10 (length triple_idx),
                          MRR = sum_list reciprocal_ranks / real (length triple_idx * 2)\<rparr>)))"

subsection \<open>evaluate_lp_k_vs_all\<close>

text \<open>
  One pass of either loop: the 0-based \<open>rank\<close> of the query's relation
  (\<open>form_of_labelling == 'RelationPrediction'\<close>) or of its tail (any other labelling).
  The source tests the labelling once and then runs one of two loops with the same body
  shape; here the test is made per triple, which takes the same branch every time.
\<close>

definition kvs_rank ::
  "(score list \<Rightarrow> nat list) \<Rightarrow> kge_model \<Rightarrow> string \<Rightarrow> triple list \<Rightarrow> triple \<Rightarrow> error + nat" where
  "kvs_rank srt m form_of_labelling data i =
     (case i of (e1_idx, r_idx, e2_idx) \<Rightarrow>
        if form_of_labelling = ''RelationPrediction''
        then filtered_rank srt (forward_k_vs_all m (training m) (E1_E2 e1_idx e2_idx))
               (filt_relations_of data e1_idx e2_idx) r_idx
        else filtered_rank srt (forward_k_vs_all m (training m) (E1_Rel e1_idx r_idx))
               (filt_tails_of data e1_idx r_idx) e2_idx)"

text \<open>\<open>for hits_level in range(10): if rank <= hits_level: hits[hits_level].append(1.0)\<close>\<close>

fun kvs_hits_update :: "real list list \<Rightarrow> nat \<Rightarrow> nat list \<Rightarrow> real list list" where
  "kvs_hits_update hits rank [] = hits"
| "kvs_hits_update hits rank (hits_level # levels) =
     kvs_hits_update
       (if rank \<le> hits_level then hits[hits_level := hits ! hits_level @ [1]] else hits)
       rank levels"

fun kvs_loop ::
  "(score list \<Rightarrow> nat list) \<Rightarrow> kge_model \<Rightarrow> string \<Rightarrow> triple list \<Rightarrow> triple list \<Rightarrow>
   real list list \<Rightarrow> nat list \<Rightarrow> error + (real list list \<times> nat list)" where
  "kvs_loop srt m form_of_labelling data [] hits ranks = Inr (hits, ranks)"
| "kvs_loop srt m form_of_labelling data (i # rest) hits ranks =
     (case kvs_rank srt m form_of_labelling data i of
        Inl e \<Rightarrow> Inl e
      | Inr rank \<Rightarrow>
          kvs_loop srt m form_of_labelling data rest
            (kvs_hits_update hits rank [0..<10]) (ranks @ [rank + 1]))"

definition evaluate_lp_k_vs_all ::
  "(score list \<Rightarrow> nat list) \<Rightarrow> storage \<Rightarrow> kge_model \<Rightarrow> triple list \<Rightarrow> string \<Rightarrow>
   kge_model \<times> (error + results)" where
  "evaluate_lp_k_vs_all srt st model triple_idx form_of_labelling =
     (let m = model_eval model in
      (m,
       case deserialize_index_data st of
         Inl e \<Rightarrow> Inl e
       | Inr data \<Rightarrow>
           (case kvs_loop srt m form_of_labelling data triple_idx (replicate 10 []) [] of
              Inl e \<Rightarrow> Inl e
            | Inr (hits, ranks) \<Rightarrow>
                if length triple_idx = 0 then Inl ZeroDivisionError
                else Inr \<lparr>H_at_1 = sum_list (hits ! 0) / real (length triple_idx),
                          H_at_3 = sum_list (hits ! 2) / real (length triple_idx),
                          H_at_10 = sum_list (hits ! 9) / real (length triple_idx),
                          MRR = sum_list (map (\<lambda>r. 1 / real r) ranks) /
                                real (length ranks)\<rparr>)))"

section \<open>A concrete run\<close>

text \<open>
  Four entities, one relation, the stored index \<open>{(0,0,1), (0,0,2)}\<close>. In inference mode
  the model scores the tails of \<open>(0, 0, _)\<close> as \<open>1, 7, 9, 3\<close> and every triple with
  another head as \<open>0\<close>; in training mode it scores everything \<open>0\<close>. Its
  \<open>forward_k_vs_all\<close> agrees with \<open>forward_triples\<close>.
\<close>

definition scen_scores :: "bool \<Rightarrow> nat \<Rightarrow> nat \<Rightarrow> nat \<Rightarrow> real" where
  "scen_scores tr s p e = (if tr \<or> s \<noteq> 0 then 0 else [1, 7, 9, 3] ! e)"

definition scen_model :: kge_model where
  "scen_model =
     \<lparr>training = True,
      forward_triples = scen_scores,
      forward_k_vs_all =
        (\<lambda>tr q. case q of
                   E1_Rel s p \<Rightarrow> map (scen_scores tr s p) [0, 1, 2, 3]
                 | E1_E2 s o1 \<Rightarrow> map (\<lambda>p. scen_scores tr s p o1) [0])\<rparr>"

definition scen_data :: "triple list" where
  "scen_data = [(0, 0, 1), (0, 0, 2)]"

definition scen_storage :: storage where
  "scen_storage = \<lparr>idx_train_df = Some [(0, 0, 1)], idx_valid_df = None,
                    idx_test_df = Some [(0, 0, 2)]\<rparr>"

section \<open>Notions the properties are stated with\<close>

text \<open>Every id of the stored index lies in the vocabulary.\<close>

definition data_in_vocab :: "nat \<Rightarrow> nat \<Rightarrow> triple list \<Rightarrow> bool" where
  "data_in_vocab num_entities num_relations data \<longleftrightarrow>
     list_all (\<lambda>(s, p, o1). s < num_entities \<and> p < num_relations \<and> o1 < num_entities) data"

text \<open>
  The raw score of the true answer \<open>t\<close> is strictly greater than the raw score of every
  other candidate that the filter does not remove.
\<close>

definition strictly_best :: "real list \<Rightarrow> nat list \<Rightarrow> nat \<Rightarrow> bool" where
  "strictly_best predictions filt t \<longleftrightarrow>
     list_all (\<lambda>e. e = t \<or> e \<in> set filt \<or> predictions ! e < predictions ! t)
       [0..<length predictions]"

text \<open>
  The aggregate metrics as the specification words them. With two ranks per query triple
  (head and tail): Hits@K is the number of head ranks and of tail ranks that are at most
  \<open>K\<close>, divided by twice the number of query triples, and the mean reciprocal rank is
  the sum of \<open>1/head_rank + 1/tail_rank\<close> divided by twice the number of query triples.
  With one rank per query triple: the fraction of ranks that are at most \<open>K\<close>, and the
  arithmetic mean of \<open>1/rank\<close>.
\<close>

definition spec_hits_entity :: "nat \<Rightarrow> (nat \<times> nat) list \<Rightarrow> real" where
  "spec_hits_entity k ranks =
     real (length (filter (\<lambda>(h, t). h \<le> k) ranks) + length (filter (\<lambda>(h, t). t \<le> k) ranks)) /
     real (2 * length ranks)"

definition spec_mrr_entity :: "(nat \<times> nat) list \<Rightarrow> real" where
  "spec_mrr_entity ranks =
     sum_list (map (\<lambda>(h, t). 1 / real h + 1 / real t) ranks) / real (2 * length ranks)"

definition spec_hits_single :: "nat \<Rightarrow> nat list \<Rightarrow> real" where
  "spec_hits_single k ranks = real (length (filter (\<lambda>r. r \<le> k) ranks)) / real (length ranks)"

definition spec_mrr_single :: "nat list \<Rightarrow> real" where
  "spec_mrr_single ranks = sum_list (map (\<lambda>r. 1 / real r) ranks) / real (length ranks)"

text \<open>The sum of the counts a dictionary of hits holds at one level.\<close>

definition hits_total :: "(nat \<rightharpoonup> nat list) \<Rightarrow> nat \<Rightarrow> nat" where
  "hits_total hits k = (case hits k of None \<Rightarrow> 0 | Some l \<Rightarrow> sum_list l)"

text \<open>
  Two states of a trainer agree on everything but the parameters and the optimizer state.
\<close>

definition same_bookkeeping ::
  "('p, 'o, 'a, 'c) ddp_trainer \<Rightarrow> ('p, 'o, 'a, 'c) ddp_trainer \<Rightarrow> bool" where
  "same_bookkeeping self self' \<longleftrightarrow>
     gpu_id self' = gpu_id self \<and>
     loss_history (module (ddp_model self')) = loss_history (module (ddp_model self)) \<and>
     callback_log self' = callback_log self \<and> callbacks self' = callbacks self \<and>
     num_epochs self' = num_epochs self \<and>
     train_dataset_loader self' = train_dataset_loader self \<and>
     trainer_loss_history self' = trainer_loss_history self \<and>
     ddp_loss_history (ddp_model self') = ddp_loss_history (ddp_model self)"

section \<open>A second concrete run\<close>

text \<open>
  Two entities, one relation, the stored index \<open>{(0,0,1)}\<close>. The model scores
  \<open>(0,0,1)\<close> as \<open>5\<close>, \<open>(1,0,1)\<close> as \<open>9\<close> and every other triple as \<open>0\<close>, in either
  mode. For the query \<open>(0,0,1)\<close> the tail rank is 1 and the head rank is 2.
\<close>

definition two_scores :: "bool \<Rightarrow> nat \<Rightarrow> nat \<Rightarrow> nat \<Rightarrow> real" where
  "two_scores tr s p e = (if e = 1 then (if s = 0 then 5 else 9) else 0)"

definition two_model :: kge_model where
  "two_model =
     \<lparr>training = False,
      forward_triples = two_scores,
      forward_k_vs_all =
        (\<lambda>tr q. case q of
                   E1_Rel s p \<Rightarrow> map (two_scores tr s p) [0, 1]
                 | E1_E2 s o1 \<Rightarrow> map (\<lambda>p. two_scores tr s p o1) [0])\<rparr>"

definition two_storage :: storage where
  "two_storage = \<lparr>idx_train_df = None, idx_valid_df = None, idx_test_df = Some [(0, 0, 1)]\<rparr>"

section \<open>Theorems\<close>

subsection \<open>Configuration check\<close>

text \<open>
  C9. A batch size larger than the number of training triples is replaced by the number
  of training triples; a batch size that does not exceed it is left as it is. The check
  has no raising branch: it always returns the updated configuration.
\<close>

theorem config_batch_size_clamped:
  "(int (train_set_len self) < batch_size self \<longrightarrow>
      batch_size (config_kge_sanity_checking self) = int (train_set_len self)) \<and>
   (batch_size self \<le> int (train_set_len self) \<longrightarrow>
      batch_size (config_kge_sanity_checking self) = batch_size self)"
  by (simp add: config_kge_sanity_checking_def Let_def)

theorem config_batch_size_clamped_witness:
  "batch_size (config_kge_sanity_checking
      \<lparr>batch_size = 1024, train_set_len = 300, model_name = ''Shallom'',
       scoring_technique = ''NegSample'', neg_ratio = Some 1\<rparr>) = 300 \<and>
   batch_size (config_kge_sanity_checking
      \<lparr>batch_size = 32, train_set_len = 300, model_name = ''Keci'',
       scoring_technique = ''NegSample'', neg_ratio = Some 1\<rparr>) = 32"
  using config_batch_size_clamped
          [of "\<lparr>batch_size = 1024, train_set_len = 300, model_name = ''Shallom'',
                scoring_technique = ''NegSample'', neg_ratio = Some 1\<rparr>"]
        config_batch_size_clamped
          [of "\<lparr>batch_size = 32, train_set_len = 300, model_name = ''Keci'',
                scoring_technique = ''NegSample'', neg_ratio = Some 1\<rparr>"]
  by simp

subsection \<open>Batch unpacking\<close>

lemma lookup_batch: "lookup_name [''self'', ''z''] ''batch'' = Inl NameError"
  by (simp add: lookup_name_def module_globals_def)

text \<open>
  C10. A batch whose length is neither 2 nor 3 makes \<open>extract_input_outputs\<close> raise, and
  the exception is the NameError of the undefined name \<open>batch\<close>, never the ValueError of
  the next line; a batch of length 2 or 3 yields the pair moved to the device.
\<close>

theorem extract_input_outputs_cases:
  "(length z \<noteq> 2 \<and> length z \<noteq> 3 \<longrightarrow> extract_input_outputs g z = Inl NameError) \<and>
   extract_input_outputs g z \<noteq> Inl ValueError \<and>
   (length z = 2 \<longrightarrow> extract_input_outputs g z =
      Inr (Plain (to_device (z ! 0) g), to_device (z ! 1) g)) \<and>
   (length z = 3 \<longrightarrow> extract_input_outputs g z =
      Inr (WithIdx (to_device (z ! 0) g) (to_device (z ! 1) g),
           to_device (z ! 2) g))"
  by (cases "(g, z)" rule: extract_input_outputs.cases) (simp_all add: lookup_batch)

theorem extract_input_outputs_cases_witness:
  "extract_input_outputs 0 [(''x'', 7), (''i'', 7), (''y'', 7), (''w'', 7)] = Inl NameError \<and>
   extract_input_outputs 0 [(''x'', 7), (''y'', 7)] = Inr (Plain (''x'', 0), (''y'', 0)) \<and>
   extract_input_outputs 0 [(''x'', 7), (''i'', 7), (''y'', 7)] =
     Inr (WithIdx (''x'', 0) (''i'', 0), (''y'', 0))"
  using extract_input_outputs_cases [of "[(''x'', 7), (''i'', 7), (''y'', 7), (''w'', 7)]" 0]
        extract_input_outputs_cases [of "[(''x'', 7), (''y'', 7)]" 0]
        extract_input_outputs_cases [of "[(''x'', 7), (''i'', 7), (''y'', 7)]" 0]
  by (simp add: to_device_def)

subsection \<open>Auxiliary facts on sorting, masking and ranking\<close>

lemma set_insert_desc: "set (insert_desc xs i js) = insert i (set js)"
  by (induction js) auto

lemma distinct_insert_desc: "i \<notin> set js \<Longrightarrow> distinct js \<Longrightarrow> distinct (insert_desc xs i js)"
  by (induction js) (auto simp: set_insert_desc)

lemma score_less_total: "\<not> score_less a b \<Longrightarrow> \<not> score_less b c \<Longrightarrow> \<not> score_less a c"
  by (cases a; cases b; cases c) auto

lemma score_less_asym: "score_less a b \<Longrightarrow> \<not> score_less b a"
  by (cases a; cases b) auto

lemma sorted_insert_desc:
  "sorted_wrt (\<lambda>a b. \<not> score_less (xs ! a) (xs ! b)) js \<Longrightarrow>
   sorted_wrt (\<lambda>a b. \<not> score_less (xs ! a) (xs ! b)) (insert_desc xs i js)"
  by (induction js) (auto simp: set_insert_desc dest: score_less_asym score_less_total)

lemma foldr_insert_desc:
  "distinct is \<Longrightarrow>
   distinct (foldr (insert_desc xs) is []) \<and> set (foldr (insert_desc xs) is []) = set is \<and>
   sorted_wrt (\<lambda>a b. \<not> score_less (xs ! a) (xs ! b)) (foldr (insert_desc xs) is [])"
  by (induction "is") (auto simp: set_insert_desc distinct_insert_desc sorted_insert_desc)

lemma valid_stable_sort_desc: "valid_sort stable_sort_desc"
  using foldr_insert_desc [of "[0..<n]" for n]
  by (simp add: valid_sort_def desc_argsort_def stable_sort_desc_def)

lemma mask_filt_ok:
  "\<forall>f \<in> set filt. f < length xs \<Longrightarrow>
   \<exists>ys. mask_filt xs filt = Inr ys \<and> length ys = length xs \<and>
        (\<forall>i < length xs. ys ! i = (if i \<in> set filt then NegInf else xs ! i))"
proof (induction filt arbitrary: xs)
  case Nil
  then show ?case by simp
next
  case (Cons f filt)
  then have "\<forall>g \<in> set filt. g < length (xs[f := NegInf])" by simp
  from Cons.IH [OF this] obtain ys where
    ys: "mask_filt (xs[f := NegInf]) filt = Inr ys" "length ys = length xs"
        "\<forall>i < length xs. ys ! i = (if i \<in> set filt then NegInf else xs[f := NegInf] ! i)"
    by auto
  from Cons.prems have "f < length xs" by simp
  with ys show ?case by (auto simp: nth_list_update)
qed

lemma where_first_ok:
  "t \<in> set idxs \<Longrightarrow>
   \<exists>k. where_first idxs t = Inr k \<and> k < length idxs \<and> idxs ! k = t"
  by (induction idxs) auto

lemma masked_predictions_ok:
  assumes "t < length predictions" and "\<forall>f \<in> set filt. f < length predictions"
  shows "\<exists>ms. masked_predictions predictions filt t = Inr ms \<and> length ms = length predictions \<and>
          ms ! t = Fin (predictions ! t) \<and>
          (\<forall>i < length predictions. i \<noteq> t \<longrightarrow>
             ms ! i = (if i \<in> set filt then NegInf else Fin (predictions ! i)))"
proof -
  from assms(2) have "\<forall>f \<in> set filt. f < length (map Fin predictions)" by simp
  from mask_filt_ok [OF this] obtain ys where
    ys: "mask_filt (map Fin predictions) filt = Inr ys" "length ys = length predictions"
        "\<forall>i < length predictions. ys ! i = (if i \<in> set filt then NegInf else Fin (predictions ! i))"
    by auto
  with assms(1) show ?thesis
    by (simp add: masked_predictions_def nth_list_update)
qed

lemma filtered_rank_bound:
  assumes "valid_sort srt" and "t < length predictions"
    and "\<forall>f \<in> set filt. f < length predictions"
  shows "\<exists>k. filtered_rank srt predictions filt t = Inr k \<and> k < length predictions"
proof -
  from masked_predictions_ok [OF assms(2,3)] obtain ms where
    ms: "masked_predictions predictions filt t = Inr ms" "length ms = length predictions"
    by auto
  from assms(1) have d: "desc_argsort ms (srt ms)" by (simp add: valid_sort_def)
  then have "t \<in> set (srt ms)" using assms(2) ms(2) by (simp add: desc_argsort_def)
  from where_first_ok [OF this] obtain k where
    k: "where_first (srt ms) t = Inr k" "k < length (srt ms)" by auto
  from d have "length (srt ms) = length ms"
    by (metis desc_argsort_def distinct_card card_atLeastLessThan diff_zero)
  with k ms show ?thesis by (simp add: filtered_rank_def)
qed

lemma strictly_best_iff:
  "strictly_best predictions filt t \<longleftrightarrow>
     (\<forall>e < length predictions. e \<noteq> t \<and> e \<notin> set filt \<longrightarrow> predictions ! e < predictions ! t)"
  by (auto simp: strictly_best_def list_all_iff)

lemma filtered_rank_best:
  assumes "valid_sort srt" and "t < length predictions"
    and "\<forall>f \<in> set filt. f < length predictions"
    and "strictly_best predictions filt t"
  shows "filtered_rank srt predictions filt t = Inr 0"
proof -
  from masked_predictions_ok [OF assms(2,3)] obtain ms where
    ms: "masked_predictions predictions filt t = Inr ms" "length ms = length predictions"
        "ms ! t = Fin (predictions ! t)"
        "\<forall>i < length predictions. i \<noteq> t \<longrightarrow>
             ms ! i = (if i \<in> set filt then NegInf else Fin (predictions ! i))"
    by auto
  have below: "score_less (ms ! i) (ms ! t)" if "i < length predictions" "i \<noteq> t" for i
    using that ms(3,4) assms(4) by (auto simp: strictly_best_iff)
  from assms(1) have d: "desc_argsort ms (srt ms)" by (simp add: valid_sort_def)
  then have "t \<in> set (srt ms)" using assms(2) ms(2) by (simp add: desc_argsort_def)
  from where_first_ok [OF this] obtain k where
    k: "where_first (srt ms) t = Inr k" "k < length (srt ms)" "srt ms ! k = t" by auto
  have "k = 0"
  proof (rule ccontr)
    assume "k \<noteq> 0"
    then have pos: "0 < k" by simp
    let ?i = "srt ms ! 0"
    from d have dist: "distinct (srt ms)" by (simp add: desc_argsort_def)
    from pos k(2) have "0 < length (srt ms)" by (rule less_trans)
    then have "?i \<in> set (srt ms)" by (rule nth_mem)
    with d ms(2) have in_range: "?i < length predictions" by (simp add: desc_argsort_def)
    from dist pos k(2,3) have "?i \<noteq> t" by (metis nth_eq_iff_index_eq less_trans less_not_refl)
    from below [OF in_range this] have lt: "score_less (ms ! ?i) (ms ! t)" .
    from d have "sorted_wrt (\<lambda>a b. \<not> score_less (ms ! a) (ms ! b)) (srt ms)"
      by (simp add: desc_argsort_def)
    from sorted_wrt_nth_less [OF this pos k(2)] k(3) lt show False by simp
  qed
  with k ms show ?thesis by (simp add: filtered_rank_def)
qed

lemma filt_tails_in_vocab:
  "data_in_vocab ne nr data \<Longrightarrow> \<forall>f \<in> set (filt_tails_of data s p). f < ne"
  by (auto simp: data_in_vocab_def filt_tails_of_def list_all_iff)

lemma filt_heads_in_vocab:
  "data_in_vocab ne nr data \<Longrightarrow> \<forall>f \<in> set (filt_heads_of data p o1). f < ne"
  by (auto simp: data_in_vocab_def filt_heads_of_def list_all_iff)

lemma filt_relations_in_vocab:
  "data_in_vocab ne nr data \<Longrightarrow> \<forall>f \<in> set (filt_relations_of data s o1). f < nr"
  by (auto simp: data_in_vocab_def filt_relations_of_def list_all_iff)

lemma length_predictions_tails [simp]: "length (predictions_tails m ne s p) = ne"
  by (simp add: predictions_tails_def)

lemma length_predictions_heads [simp]: "length (predictions_heads m ne p o1) = ne"
  by (simp add: predictions_heads_def)

subsection \<open>Ranks stay within the vocabulary\<close>

lemma upt4: "[0..<4] = [0, 1, 2, 3]"
  by (simp add: upt_rec)

lemmas scen_defs = scen_model_def scen_scores_def scen_data_def scen_storage_def model_eval_def
  predictions_tails_def predictions_heads_def filt_tails_of_def filt_heads_of_def
  filt_relations_of_def filtered_rank_def masked_predictions_def stable_sort_desc_def
  lp_ranks_def kvs_rank_def data_in_vocab_def strictly_best_def

lemma lp_ranks_bound:
  assumes "valid_sort srt" and "data_in_vocab ne nr data" and "s < ne" and "o1 < ne"
  shows "\<exists>h t. lp_ranks srt m ne data (s, p, o1) = Inr (h, t) \<and>
           1 \<le> h \<and> h \<le> ne \<and> 1 \<le> t \<and> t \<le> ne"
proof -
  from filtered_rank_bound [OF assms(1), of o1 "predictions_tails m ne s p" "filt_tails_of data s p"]
    filt_tails_in_vocab [OF assms(2)] assms(4)
  obtain kt where kt: "filtered_rank srt (predictions_tails m ne s p) (filt_tails_of data s p) o1 = Inr kt"
    "kt < ne" by auto
  from filtered_rank_bound [OF assms(1), of s "predictions_heads m ne p o1" "filt_heads_of data p o1"]
    filt_heads_in_vocab [OF assms(2)] assms(3)
  obtain kh where kh: "filtered_rank srt (predictions_heads m ne p o1) (filt_heads_of data p o1) s = Inr kh"
    "kh < ne" by auto
  from kt kh show ?thesis by (simp add: lp_ranks_def)
qed

lemma kvs_rank_entity_bound:
  assumes "valid_sort srt" and "data_in_vocab ne nr data" and "o1 < ne"
    and "form \<noteq> ''RelationPrediction''"
    and "length (forward_k_vs_all m (training m) (E1_Rel s p)) = ne"
  shows "\<exists>rank. kvs_rank srt m form data (s, p, o1) = Inr rank \<and> rank + 1 \<le> ne"
proof -
  from filtered_rank_bound [OF assms(1), of o1 "forward_k_vs_all m (training m) (E1_Rel s p)"
      "filt_tails_of data s p"] filt_tails_in_vocab [OF assms(2)] assms(3,5)
  obtain k where "filtered_rank srt (forward_k_vs_all m (training m) (E1_Rel s p))
      (filt_tails_of data s p) o1 = Inr k" "k < ne" by auto
  with assms(4) show ?thesis by (simp add: kvs_rank_def)
qed

lemma kvs_rank_relation_bound:
  assumes "valid_sort srt" and "data_in_vocab ne nr data" and "p < nr"
    and "length (forward_k_vs_all m (training m) (E1_E2 s o1)) = nr"
  shows "\<exists>rank. kvs_rank srt m ''RelationPrediction'' data (s, p, o1) = Inr rank \<and> rank + 1 \<le> nr"
proof -
  from filtered_rank_bound [OF assms(1), of p "forward_k_vs_all m (training m) (E1_E2 s o1)"
      "filt_relations_of data s o1"] filt_relations_in_vocab [OF assms(2)] assms(3,4)
  obtain k where "filtered_rank srt (forward_k_vs_all m (training m) (E1_E2 s o1))
      (filt_relations_of data s o1) p = Inr k" "k < nr" by auto
  then show ?thesis by (simp add: kvs_rank_def)
qed

text \<open>
  C4. For a query triple whose ids lie in the vocabulary (and a stored index whose ids do),
  every rank the evaluators compute exists and is 1-based and bounded by the vocabulary
  size: the head and tail ranks of \<open>evaluate_lp\<close> and the tail rank of
  \<open>evaluate_lp_k_vs_all\<close> lie between 1 and \<open>num_entities\<close>, the relation rank between
  1 and \<open>num_relations\<close>. \<open>kvs_rank\<close> is the 0-based \<open>rank\<close> of the source; the rank
  it appends is \<open>rank + 1\<close>. This holds for every sort that meets the contract of
  \<open>torch.sort\<close>.
\<close>

theorem ranks_within_vocabulary:
  assumes "valid_sort srt" and "data_in_vocab ne nr data"
    and "s < ne" and "p < nr" and "o1 < ne"
  shows "(\<exists>h t. lp_ranks srt m ne data (s, p, o1) = Inr (h, t) \<and>
            1 \<le> h \<and> h \<le> ne \<and> 1 \<le> t \<and> t \<le> ne) \<and>
         (form \<noteq> ''RelationPrediction'' \<and>
          length (forward_k_vs_all m (training m) (E1_Rel s p)) = ne \<longrightarrow>
            (\<exists>rank. kvs_rank srt m form data (s, p, o1) = Inr rank \<and>
               1 \<le> rank + 1 \<and> rank + 1 \<le> ne)) \<and>
         (length (forward_k_vs_all m (training m) (E1_E2 s o1)) = nr \<longrightarrow>
            (\<exists>rank. kvs_rank srt m ''RelationPrediction'' data (s, p, o1) = Inr rank \<and>
               1 \<le> rank + 1 \<and> rank + 1 \<le> nr))"
  using lp_ranks_bound [OF assms(1,2,3,5), of m p]
    kvs_rank_entity_bound [OF assms(1,2,5), of form m s p]
    kvs_rank_relation_bound [OF assms(1,2,4), of m s o1]
  by simp

theorem ranks_within_vocabulary_witness:
  "valid_sort stable_sort_desc \<and> data_in_vocab 4 1 scen_data \<and>
   lp_ranks stable_sort_desc (model_eval scen_model) 4 scen_data (0, 0, 1) = Inr (1, 1) \<and>
   kvs_rank stable_sort_desc (model_eval scen_model) ''EntityPrediction'' scen_data (0, 0, 1) = Inr 0 \<and>
   kvs_rank stable_sort_desc (model_eval scen_model) ''RelationPrediction'' scen_data (0, 0, 1) = Inr 0"
proof -
  have h1: "valid_sort stable_sort_desc" by (rule valid_stable_sort_desc)
  have h2: "data_in_vocab 4 1 scen_data" by (simp add: scen_defs)
  have h3: "(0::nat) < 4" "(0::nat) < 1" "(1::nat) < 4" by simp_all
  show ?thesis
    using h1 h2
      ranks_within_vocabulary [OF h1 h2 h3, of "model_eval scen_model" "''EntityPrediction''"]
    by (simp add: scen_defs upt4)
qed

subsection \<open>Filtering never touches the true answer\<close>

lemma set_filt_tails_of: "set (filt_tails_of data s p) = {e. (s, p, e) \<in> set data}"
  by (auto simp: filt_tails_of_def image_iff)

lemma set_filt_heads_of: "set (filt_heads_of data p o1) = {e. (e, p, o1) \<in> set data}"
  by (auto simp: filt_heads_of_def image_iff)

lemma filtered_rank_position:
  assumes "valid_sort srt" and "t < length predictions"
    and "\<forall>f \<in> set filt. f < length predictions"
  shows "\<exists>ms k. masked_predictions predictions filt t = Inr ms \<and>
           length ms = length predictions \<and>
           ms ! t = Fin (predictions ! t) \<and>
           (\<forall>e \<in> set filt. e \<noteq> t \<longrightarrow> ms ! e = NegInf) \<and>
           (\<forall>e < length predictions. e \<notin> set filt \<longrightarrow> ms ! e = Fin (predictions ! e)) \<and>
           where_first (srt ms) t = Inr k \<and>
           filtered_rank srt predictions filt t = Inr k \<and>
           (\<forall>j < k. srt ms ! j \<notin> set filt) \<and>
           (strictly_best predictions filt t \<longrightarrow> k = 0)"
proof -
  from masked_predictions_ok [OF assms(2,3)] obtain ms where
    ms: "masked_predictions predictions filt t = Inr ms" "length ms = length predictions"
        "ms ! t = Fin (predictions ! t)"
        "\<forall>i < length predictions. i \<noteq> t \<longrightarrow>
             ms ! i = (if i \<in> set filt then NegInf else Fin (predictions ! i))"
    by auto
  from assms(1) have d: "desc_argsort ms (srt ms)" by (simp add: valid_sort_def)
  then have "t \<in> set (srt ms)" using assms(2) ms(2) by (simp add: desc_argsort_def)
  from where_first_ok [OF this] obtain k where
    k: "where_first (srt ms) t = Inr k" "k < length (srt ms)" "srt ms ! k = t" by auto
  from k(1) ms(1) have fr: "filtered_rank srt predictions filt t = Inr k"
    by (simp add: filtered_rank_def)
  have masked: "\<forall>e \<in> set filt. e \<noteq> t \<longrightarrow> ms ! e = NegInf"
    using ms(4) assms(3) by auto
  have kept: "\<forall>e < length predictions. e \<notin> set filt \<longrightarrow> ms ! e = Fin (predictions ! e)"
    using ms(3,4) by auto
  have before: "\<forall>j < k. srt ms ! j \<notin> set filt"
  proof (intro allI impI)
    fix j assume jk: "j < k"
    from d have dist: "distinct (srt ms)"
      and sorted: "sorted_wrt (\<lambda>a b. \<not> score_less (ms ! a) (ms ! b)) (srt ms)"
      by (simp_all add: desc_argsort_def)
    from jk k(2) have jl: "j < length (srt ms)" by simp
    from dist jk jl k(2,3) have ne: "srt ms ! j \<noteq> t"
      by (metis nth_eq_iff_index_eq less_not_refl)
    from sorted_wrt_nth_less [OF sorted jk k(2)] k(3)
    have nl: "\<not> score_less (ms ! (srt ms ! j)) (ms ! t)" by simp
    show "srt ms ! j \<notin> set filt"
    proof
      assume "srt ms ! j \<in> set filt"
      with masked ne have "ms ! (srt ms ! j) = NegInf" by simp
      with nl ms(3) show False by simp
    qed
  qed
  have best: "strictly_best predictions filt t \<longrightarrow> k = 0"
    using filtered_rank_best [OF assms] fr by auto
  from ms(1,2,3) masked kept k(1) fr before best show ?thesis by blast
qed


lemma tails_position:
  assumes "valid_sort srt" and "data_in_vocab ne nr data" and "o1 < ne" and "length preds = ne"
  shows "\<exists>mt kt. masked_predictions preds (filt_tails_of data s p) o1 = Inr mt \<and>
           (\<forall>e. (s, p, e) \<in> set data \<and> e \<noteq> o1 \<longrightarrow> mt ! e = NegInf) \<and>
           (\<forall>e < ne. (s, p, e) \<notin> set data \<longrightarrow> mt ! e = Fin (preds ! e)) \<and>
           mt ! o1 = Fin (preds ! o1) \<and>
           where_first (srt mt) o1 = Inr kt \<and>
           filtered_rank srt preds (filt_tails_of data s p) o1 = Inr kt \<and>
           (\<forall>j < kt. (s, p, srt mt ! j) \<notin> set data) \<and>
           (strictly_best preds (filt_tails_of data s p) o1 \<longrightarrow> kt + 1 = 1)"
proof -
  from assms(3,4) have t: "o1 < length preds" by simp
  from filt_tails_in_vocab [OF assms(2), of s p] assms(4)
  have f: "\<forall>f \<in> set (filt_tails_of data s p). f < length preds" by simp
  from filtered_rank_position [OF assms(1) t f] assms(4) show ?thesis
    by (simp add: set_filt_tails_of) blast
qed

lemma heads_position:
  assumes "valid_sort srt" and "data_in_vocab ne nr data" and "s < ne" and "length preds = ne"
  shows "\<exists>mh kh. masked_predictions preds (filt_heads_of data p o1) s = Inr mh \<and>
           (\<forall>e. (e, p, o1) \<in> set data \<and> e \<noteq> s \<longrightarrow> mh ! e = NegInf) \<and>
           (\<forall>e < ne. (e, p, o1) \<notin> set data \<longrightarrow> mh ! e = Fin (preds ! e)) \<and>
           mh ! s = Fin (preds ! s) \<and>
           where_first (srt mh) s = Inr kh \<and>
           filtered_rank srt preds (filt_heads_of data p o1) s = Inr kh \<and>
           (\<forall>j < kh. (srt mh ! j, p, o1) \<notin> set data) \<and>
           (strictly_best preds (filt_heads_of data p o1) s \<longrightarrow> kh + 1 = 1)"
proof -
  from assms(3,4) have t: "s < length preds" by simp
  from filt_heads_in_vocab [OF assms(2), of p o1] assms(4)
  have f: "\<forall>f \<in> set (filt_heads_of data p o1). f < length preds" by simp
  from filtered_rank_position [OF assms(1) t f] assms(4) show ?thesis
    by (simp add: set_filt_heads_of) blast
qed

lemma predictions_tails_nth: "e < ne \<Longrightarrow> predictions_tails m ne s p ! e = forward_triples m (training m) s p e"
  by (simp add: predictions_tails_def)

lemma predictions_heads_nth: "e < ne \<Longrightarrow> predictions_heads m ne p o1 ! e = forward_triples m (training m) e p o1"
  by (simp add: predictions_heads_def)

text \<open>
  C1. In filtered evaluation of a query triple whose ids lie in the vocabulary, the vector
  handed to the sort holds negative infinity at every other entity that forms a triple of
  the stored index with the fixed pair, the raw score at the true answer, and the raw
  score at every entity that forms no such triple. The rank the evaluator computes is
  the position of the true answer in the sort of that vector, plus one; no entity that
  the filter removed is sorted before the true answer. So, when the raw score of the true
  answer is strictly greater than that of every candidate the filter leaves in, the
  computed rank is 1, whatever the stored index holds. Stated for the tail and head
  vectors of \<open>evaluate_lp\<close> and for the tail vector of \<open>evaluate_lp_k_vs_all\<close> (whose
  \<open>rank\<close> is 0-based, the rank it appends being \<open>rank + 1\<close>), for every sort that meets
  the contract of \<open>torch.sort\<close>.
\<close>

theorem filtering_keeps_true_answer:
  assumes "valid_sort srt" and "data_in_vocab ne nr data" and "s < ne" and "o1 < ne"
  shows
    "(\<exists>mt mh kt kh.
        masked_predictions (predictions_tails m ne s p) (filt_tails_of data s p) o1 = Inr mt \<and>
        masked_predictions (predictions_heads m ne p o1) (filt_heads_of data p o1) s = Inr mh \<and>
        (\<forall>e. (s, p, e) \<in> set data \<and> e \<noteq> o1 \<longrightarrow> mt ! e = NegInf) \<and>
        (\<forall>e < ne. (s, p, e) \<notin> set data \<longrightarrow> mt ! e = Fin (forward_triples m (training m) s p e)) \<and>
        mt ! o1 = Fin (forward_triples m (training m) s p o1) \<and>
        (\<forall>e. (e, p, o1) \<in> set data \<and> e \<noteq> s \<longrightarrow> mh ! e = NegInf) \<and>
        (\<forall>e < ne. (e, p, o1) \<notin> set data \<longrightarrow> mh ! e = Fin (forward_triples m (training m) e p o1)) \<and>
        mh ! s = Fin (forward_triples m (training m) s p o1) \<and>
        where_first (srt mt) o1 = Inr kt \<and>
        where_first (srt mh) s = Inr kh \<and>
        lp_ranks srt m ne data (s, p, o1) = Inr (kh + 1, kt + 1) \<and>
        (\<forall>j < kt. (s, p, srt mt ! j) \<notin> set data) \<and>
        (\<forall>j < kh. (srt mh ! j, p, o1) \<notin> set data) \<and>
        (strictly_best (predictions_tails m ne s p) (filt_tails_of data s p) o1 \<longrightarrow> kt + 1 = 1) \<and>
        (strictly_best (predictions_heads m ne p o1) (filt_heads_of data p o1) s \<longrightarrow> kh + 1 = 1)) \<and>
     (form \<noteq> ''RelationPrediction'' \<and>
      length (forward_k_vs_all m (training m) (E1_Rel s p)) = ne \<longrightarrow>
        (\<exists>mk k.
           masked_predictions (forward_k_vs_all m (training m) (E1_Rel s p))
             (filt_tails_of data s p) o1 = Inr mk \<and>
           (\<forall>e. (s, p, e) \<in> set data \<and> e \<noteq> o1 \<longrightarrow> mk ! e = NegInf) \<and>
           (\<forall>e < ne. (s, p, e) \<notin> set data \<longrightarrow>
              mk ! e = Fin (forward_k_vs_all m (training m) (E1_Rel s p) ! e)) \<and>
           mk ! o1 = Fin (forward_k_vs_all m (training m) (E1_Rel s p) ! o1) \<and>
           where_first (srt mk) o1 = Inr k \<and>
           kvs_rank srt m form data (s, p, o1) = Inr k \<and>
           (\<forall>j < k. (s, p, srt mk ! j) \<notin> set data) \<and>
           (strictly_best (forward_k_vs_all m (training m) (E1_Rel s p))
              (filt_tails_of data s p) o1 \<longrightarrow> k + 1 = 1)))"
proof (intro conjI impI)
  from tails_position [OF assms(1,2,4), of "predictions_tails m ne s p" s p]
  obtain mt kt where
    t: "masked_predictions (predictions_tails m ne s p) (filt_tails_of data s p) o1 = Inr mt"
       "\<forall>e. (s, p, e) \<in> set data \<and> e \<noteq> o1 \<longrightarrow> mt ! e = NegInf"
       "\<forall>e < ne. (s, p, e) \<notin> set data \<longrightarrow> mt ! e = Fin (predictions_tails m ne s p ! e)"
       "mt ! o1 = Fin (predictions_tails m ne s p ! o1)"
       "where_first (srt mt) o1 = Inr kt"
       "filtered_rank srt (predictions_tails m ne s p) (filt_tails_of data s p) o1 = Inr kt"
       "\<forall>j < kt. (s, p, srt mt ! j) \<notin> set data"
       "strictly_best (predictions_tails m ne s p) (filt_tails_of data s p) o1 \<longrightarrow> kt + 1 = 1"
    by auto
  from heads_position [OF assms(1,2,3), of "predictions_heads m ne p o1" p o1]
  obtain mh kh where
    h: "masked_predictions (predictions_heads m ne p o1) (filt_heads_of data p o1) s = Inr mh"
       "\<forall>e. (e, p, o1) \<in> set data \<and> e \<noteq> s \<longrightarrow> mh ! e = NegInf"
       "\<forall>e < ne. (e, p, o1) \<notin> set data \<longrightarrow> mh ! e = Fin (predictions_heads m ne p o1 ! e)"
       "mh ! s = Fin (predictions_heads m ne p o1 ! s)"
       "where_first (srt mh) s = Inr kh"
       "filtered_rank srt (predictions_heads m ne p o1) (filt_heads_of data p o1) s = Inr kh"
       "\<forall>j < kh. (srt mh ! j, p, o1) \<notin> set data"
       "strictly_best (predictions_heads m ne p o1) (filt_heads_of data p o1) s \<longrightarrow> kh + 1 = 1"
    by auto
  from t(6) h(6) have r: "lp_ranks srt m ne data (s, p, o1) = Inr (kh + 1, kt + 1)"
    by (simp add: lp_ranks_def)
  from t(3) have t3: "\<forall>e < ne. (s, p, e) \<notin> set data \<longrightarrow>
      mt ! e = Fin (forward_triples m (training m) s p e)"
    by (simp add: predictions_tails_nth)
  from t(4) assms(4) have t4: "mt ! o1 = Fin (forward_triples m (training m) s p o1)"
    by (simp add: predictions_tails_nth)
  from h(3) have h3: "\<forall>e < ne. (e, p, o1) \<notin> set data \<longrightarrow>
      mh ! e = Fin (forward_triples m (training m) e p o1)"
    by (simp add: predictions_heads_nth)
  from h(4) assms(3) have h4: "mh ! s = Fin (forward_triples m (training m) s p o1)"
    by (simp add: predictions_heads_nth)
  from t(1,2) t3 t4 t(5,7,8) h(1,2) h3 h4 h(5,7,8) r
  show "\<exists>mt mh kt kh.
        masked_predictions (predictions_tails m ne s p) (filt_tails_of data s p) o1 = Inr mt \<and>
        masked_predictions (predictions_heads m ne p o1) (filt_heads_of data p o1) s = Inr mh \<and>
        (\<forall>e. (s, p, e) \<in> set data \<and> e \<noteq> o1 \<longrightarrow> mt ! e = NegInf) \<and>
        (\<forall>e < ne. (s, p, e) \<notin> set data \<longrightarrow> mt ! e = Fin (forward_triples m (training m) s p e)) \<and>
        mt ! o1 = Fin (forward_triples m (training m) s p o1) \<and>
        (\<forall>e. (e, p, o1) \<in> set data \<and> e \<noteq> s \<longrightarrow> mh ! e = NegInf) \<and>
        (\<forall>e < ne. (e, p, o1) \<notin> set data \<longrightarrow> mh ! e = Fin (forward_triples m (training m) e p o1)) \<and>
        mh ! s = Fin (forward_triples m (training m) s p o1) \<and>
        where_first (srt mt) o1 = Inr kt \<and>
        where_first (srt mh) s = Inr kh \<and>
        lp_ranks srt m ne data (s, p, o1) = Inr (kh + 1, kt + 1) \<and>
        (\<forall>j < kt. (s, p, srt mt ! j) \<notin> set data) \<and>
        (\<forall>j < kh. (srt mh ! j, p, o1) \<notin> set data) \<and>
        (strictly_best (predictions_tails m ne s p) (filt_tails_of data s p) o1 \<longrightarrow> kt + 1 = 1) \<and>
        (strictly_best (predictions_heads m ne p o1) (filt_heads_of data p o1) s \<longrightarrow> kh + 1 = 1)"
    by blast
next
  assume a: "form \<noteq> ''RelationPrediction'' \<and>
      length (forward_k_vs_all m (training m) (E1_Rel s p)) = ne"
  then have len: "length (forward_k_vs_all m (training m) (E1_Rel s p)) = ne"
    and form: "form \<noteq> ''RelationPrediction''" by simp_all
  from form have "kvs_rank srt m form data (s, p, o1) =
      filtered_rank srt (forward_k_vs_all m (training m) (E1_Rel s p)) (filt_tails_of data s p) o1"
    by (simp add: kvs_rank_def)
  with tails_position [OF assms(1,2,4) len, of s p]
  show "\<exists>mk k.
           masked_predictions (forward_k_vs_all m (training m) (E1_Rel s p))
             (filt_tails_of data s p) o1 = Inr mk \<and>
           (\<forall>e. (s, p, e) \<in> set data \<and> e \<noteq> o1 \<longrightarrow> mk ! e = NegInf) \<and>
           (\<forall>e < ne. (s, p, e) \<notin> set data \<longrightarrow>
              mk ! e = Fin (forward_k_vs_all m (training m) (E1_Rel s p) ! e)) \<and>
           mk ! o1 = Fin (forward_k_vs_all m (training m) (E1_Rel s p) ! o1) \<and>
           where_first (srt mk) o1 = Inr k \<and>
           kvs_rank srt m form data (s, p, o1) = Inr k \<and>
           (\<forall>j < k. (s, p, srt mk ! j) \<notin> set data) \<and>
           (strictly_best (forward_k_vs_all m (training m) (E1_Rel s p))
              (filt_tails_of data s p) o1 \<longrightarrow> k + 1 = 1)"
    by simp
qed

theorem filtering_keeps_true_answer_witness:
  "valid_sort stable_sort_desc \<and> data_in_vocab 4 1 scen_data \<and>
   strictly_best (predictions_tails (model_eval scen_model) 4 0 0) (filt_tails_of scen_data 0 0) 1 \<and>
   strictly_best (predictions_heads (model_eval scen_model) 4 0 1) (filt_heads_of scen_data 0 1) 0 \<and>
   masked_predictions (predictions_tails (model_eval scen_model) 4 0 0) (filt_tails_of scen_data 0 0) 1
     = Inr [Fin 1, Fin 7, NegInf, Fin 3] \<and>
   stable_sort_desc [Fin 1, Fin 7, NegInf, Fin 3] = [1, 3, 0, 2] \<and>
   where_first (stable_sort_desc [Fin 1, Fin 7, NegInf, Fin 3]) 1 = Inr 0 \<and>
   lp_ranks stable_sort_desc (model_eval scen_model) 4 scen_data (0, 0, 1) = Inr (1, 1) \<and>
   kvs_rank stable_sort_desc (model_eval scen_model) ''EntityPrediction'' scen_data (0, 0, 1) = Inr 0"
proof -
  have h1: "valid_sort stable_sort_desc" by (rule valid_stable_sort_desc)
  have h2: "data_in_vocab 4 1 scen_data" by (simp add: scen_defs)
  have h3: "(0::nat) < 4" "(1::nat) < 4" by simp_all
  show ?thesis
    using h1 h2
      filtering_keeps_true_answer [OF h1 h2 h3, of "model_eval scen_model" 0 "''EntityPrediction''"]
    by (simp add: scen_defs upt4)
qed

subsection \<open>The loops of the evaluators\<close>

lemma lp_loop_ranks:
  "map (lp_ranks srt m ne data) ts = map Inr ranks \<Longrightarrow>
   lp_loop srt m ne data ts hits rr =
     Inr (foldl (\<lambda>hs (h, t). hits_update hs h t [1..<11]) hits ranks,
          rr @ map (\<lambda>(h, t). 1 / real h + 1 / real t) ranks)"
proof (induction ts arbitrary: ranks hits rr)
  case Nil
  then show ?case by simp
next
  case (Cons dp ts)
  then obtain r rs where ranks: "ranks = r # rs" by (cases ranks) auto
  obtain h t where r: "r = (h, t)" by (cases r)
  from Cons.prems ranks r have "lp_ranks srt m ne data dp = Inr (h, t)"
    and "map (lp_ranks srt m ne data) ts = map Inr rs" by simp_all
  with Cons.IH [of rs] ranks r show ?case by simp
qed

lemma lp_loop_Inr:
  "lp_loop srt m ne data ts hits rr = Inr x \<Longrightarrow>
   \<exists>ranks. map (lp_ranks srt m ne data) ts = map Inr ranks"
proof (induction ts arbitrary: hits rr)
  case Nil
  then show ?case by simp
next
  case (Cons dp ts)
  from Cons.prems obtain h t where dp: "lp_ranks srt m ne data dp = Inr (h, t)"
    by (auto split: sum.splits)
  with Cons.prems have "lp_loop srt m ne data ts (hits_update hits h t [1..<11])
      (rr @ [1 / real h + 1 / real t]) = Inr x" by simp
  from Cons.IH [OF this] obtain rs where "map (lp_ranks srt m ne data) ts = map Inr rs" ..
  with dp have "map (lp_ranks srt m ne data) (dp # ts) = map Inr ((h, t) # rs)" by simp
  then show ?case ..
qed

lemma hits_total_update:
  "distinct levels \<Longrightarrow>
   hits_total (hits_update hits h t levels) k =
     hits_total hits k +
     (if k \<in> set levels then (if h \<le> k then 1 else 0) + (if t \<le> k then 1 else 0) else 0)"
  by (induction levels arbitrary: hits) (auto simp: hits_total_def Let_def split: option.splits)

lemma hits_total_foldl:
  "k \<in> set [1..<11] \<Longrightarrow>
   hits_total (foldl (\<lambda>hs (h, t). hits_update hs h t [1..<11]) hits ranks) k =
     hits_total hits k +
     length (filter (\<lambda>(h, t). h \<le> k) ranks) + length (filter (\<lambda>(h, t). t \<le> k) ranks)"
proof (induction ranks arbitrary: hits)
  case Nil
  then show ?case by simp
next
  case (Cons r ranks)
  obtain h t where r: "r = (h, t)" by (cases r)
  have "distinct [1..<11::nat]" by simp
  from hits_total_update [OF this, of hits h t k] Cons.prems
  have "hits_total (hits_update hits h t [1..<11]) k =
      hits_total hits k + ((if h \<le> k then 1 else 0) + (if t \<le> k then 1 else 0))"
    by simp
  with Cons.IH [OF Cons.prems, of "hits_update hits h t [1..<11]"] r show ?case by simp
qed

lemma hit_at_total: "hit_at hits k n = real (hits_total hits k) / real (n * 2)"
  by (simp add: hit_at_def hits_total_def split: option.splits)

lemma hit_at_foldl:
  assumes "k \<in> set [1..<11]"
  shows "hit_at (foldl (\<lambda>hs (h, t). hits_update hs h t [1..<11]) Map.empty ranks) k (length ranks) =
     spec_hits_entity k ranks"
proof -
  have "hits_total Map.empty k = 0" by (simp add: hits_total_def)
  with hits_total_foldl [OF assms, of Map.empty ranks]
  have "hits_total (foldl (\<lambda>hs (h, t). hits_update hs h t [1..<11]) Map.empty ranks) k =
      length (filter (\<lambda>(h, t). h \<le> k) ranks) + length (filter (\<lambda>(h, t). t \<le> k) ranks)"
    by simp
  then show ?thesis
    by (simp only: hit_at_total spec_hits_entity_def mult.commute)
qed

lemma evaluate_lp_result:
  assumes "deserialize_index_data st = Inr data"
    and "map (lp_ranks srt (model_eval model) ne data) triple_idx = map Inr ranks"
    and "triple_idx \<noteq> []"
  shows "snd (evaluate_lp srt st ne model triple_idx) =
     Inr \<lparr>H_at_1 = spec_hits_entity 1 ranks, H_at_3 = spec_hits_entity 3 ranks,
          H_at_10 = spec_hits_entity 10 ranks, MRR = spec_mrr_entity ranks\<rparr>"
proof -
  from assms(2) have len: "length triple_idx = length ranks"
    by (metis length_map)
  have k: "(1::nat) \<in> set [1..<11]" "(3::nat) \<in> set [1..<11]" "(10::nat) \<in> set [1..<11]"
    by simp_all
  from assms(3) have "length triple_idx * 2 \<noteq> 0" by simp
  then show ?thesis
    using assms(1) lp_loop_ranks [OF assms(2), of Map.empty "[]"]
      hit_at_foldl [OF k(1), of ranks] hit_at_foldl [OF k(2), of ranks]
      hit_at_foldl [OF k(3), of ranks]
    by (simp add: evaluate_lp_def Let_def len spec_mrr_entity_def mult.commute)
qed

lemma evaluate_lp_Inr:
  assumes "snd (evaluate_lp srt st ne model triple_idx) = Inr res"
  shows "\<exists>data ranks. deserialize_index_data st = Inr data \<and>
           map (lp_ranks srt (model_eval model) ne data) triple_idx = map Inr ranks \<and>
           triple_idx \<noteq> []"
proof -
  from assms obtain data where d: "deserialize_index_data st = Inr data"
    by (auto simp: evaluate_lp_def Let_def split: sum.splits)
  with assms obtain x where
    x: "lp_loop srt (model_eval model) ne data triple_idx Map.empty [] = Inr x"
    by (auto simp: evaluate_lp_def Let_def split: sum.splits)
  from assms d x have "triple_idx \<noteq> []"
    by (auto simp: evaluate_lp_def Let_def split: sum.splits prod.splits if_splits)
  with d lp_loop_Inr [OF x] show ?thesis by blast
qed

lemma kvs_loop_ranks:
  "map (kvs_rank srt m form data) ts = map Inr rs \<Longrightarrow>
   kvs_loop srt m form data ts hits ranks =
     Inr (foldl (\<lambda>hs r. kvs_hits_update hs r [0..<10]) hits rs, ranks @ map Suc rs)"
proof (induction ts arbitrary: rs hits ranks)
  case Nil
  then show ?case by simp
next
  case (Cons i ts)
  then obtain r rs' where rs: "rs = r # rs'" by (cases rs) auto
  from Cons.prems rs have "kvs_rank srt m form data i = Inr r"
    and "map (kvs_rank srt m form data) ts = map Inr rs'" by simp_all
  with Cons.IH [of rs'] rs show ?case by simp
qed

lemma kvs_loop_Inr:
  "kvs_loop srt m form data ts hits ranks = Inr x \<Longrightarrow>
   \<exists>rs. map (kvs_rank srt m form data) ts = map Inr rs"
proof (induction ts arbitrary: hits ranks)
  case Nil
  then show ?case by simp
next
  case (Cons i ts)
  from Cons.prems obtain r where i: "kvs_rank srt m form data i = Inr r"
    by (auto split: sum.splits)
  with Cons.prems have "kvs_loop srt m form data ts (kvs_hits_update hits r [0..<10])
      (ranks @ [r + 1]) = Inr x" by simp
  from Cons.IH [OF this] obtain rs where "map (kvs_rank srt m form data) ts = map Inr rs" ..
  with i have "map (kvs_rank srt m form data) (i # ts) = map Inr (r # rs)" by simp
  then show ?case ..
qed

lemma length_kvs_hits_update [simp]:
  "length (kvs_hits_update hits rank levels) = length hits"
  by (induction levels arbitrary: hits) auto

lemma kvs_hits_update_nth:
  "distinct levels \<Longrightarrow> k < length hits \<Longrightarrow>
   sum_list (kvs_hits_update hits rank levels ! k) =
     sum_list (hits ! k) + (if k \<in> set levels \<and> rank \<le> k then 1 else 0)"
proof (induction levels arbitrary: hits)
  case Nil
  then show ?case by simp
next
  case (Cons a levels)
  let ?hits = "if rank \<le> a then hits[a := hits ! a @ [1]] else hits"
  from Cons.prems have d: "distinct levels" and a: "a \<notin> set levels" by simp_all
  from Cons.prems have len: "k < length ?hits" by simp
  have step: "sum_list (?hits ! k) = sum_list (hits ! k) + (if k = a \<and> rank \<le> k then 1 else 0)"
    using Cons.prems(2) by (cases "k = a") (simp_all add: nth_list_update_neq)
  have "sum_list (kvs_hits_update hits rank (a # levels) ! k) =
      sum_list (kvs_hits_update ?hits rank levels ! k)" by simp
  also have "\<dots> = sum_list (?hits ! k) + (if k \<in> set levels \<and> rank \<le> k then 1 else 0)"
    by (rule Cons.IH [OF d len])
  also have "\<dots> = sum_list (hits ! k) + (if k \<in> set (a # levels) \<and> rank \<le> k then 1 else 0)"
    using step a by auto
  finally show ?case .
qed

lemma length_kvs_foldl [simp]:
  "length (foldl (\<lambda>hs r. kvs_hits_update hs r levels) hits rs) = length hits"
  by (induction rs arbitrary: hits) auto

lemma kvs_hits_foldl:
  "k < 10 \<Longrightarrow> length hits = 10 \<Longrightarrow>
   sum_list (foldl (\<lambda>hs r. kvs_hits_update hs r [0..<10]) hits rs ! k) =
     sum_list (hits ! k) + real (length (filter (\<lambda>r. r \<le> k) rs))"
proof (induction rs arbitrary: hits)
  case Nil
  then show ?case by simp
next
  case (Cons r rs)
  have "distinct [0..<10::nat]" by simp
  from kvs_hits_update_nth [OF this, of k hits r] Cons.prems
  have "sum_list (kvs_hits_update hits r [0..<10] ! k) =
      sum_list (hits ! k) + (if r \<le> k then 1 else 0)" by simp
  with Cons.IH [of "kvs_hits_update hits r [0..<10]"] Cons.prems show ?case by simp
qed

lemma kvs_hits_spec:
  assumes "k < 10"
  shows "sum_list (foldl (\<lambda>hs r. kvs_hits_update hs r [0..<10]) (replicate 10 []) rs ! k) /
           real (length rs) = spec_hits_single (Suc k) (map Suc rs)"
proof -
  have "sum_list (replicate 10 ([]::real list) ! k) = 0" using assms by simp
  with kvs_hits_foldl [OF assms, of "replicate 10 []" rs]
  have "sum_list (foldl (\<lambda>hs r. kvs_hits_update hs r [0..<10]) (replicate 10 []) rs ! k) =
      real (length (filter (\<lambda>r. r \<le> k) rs))" by simp
  then show ?thesis by (simp add: spec_hits_single_def filter_map o_def)
qed

lemma evaluate_lp_k_vs_all_result:
  assumes "deserialize_index_data st = Inr data"
    and "map (kvs_rank srt (model_eval model) form data) triple_idx = map Inr rs"
    and "triple_idx \<noteq> []"
  shows "snd (evaluate_lp_k_vs_all srt st model triple_idx form) =
     Inr \<lparr>H_at_1 = spec_hits_single 1 (map Suc rs), H_at_3 = spec_hits_single 3 (map Suc rs),
          H_at_10 = spec_hits_single 10 (map Suc rs), MRR = spec_mrr_single (map Suc rs)\<rparr>"
proof -
  from assms(2) have len: "length triple_idx = length rs"
    by (metis length_map)
  have h: "sum_list (foldl (\<lambda>hs r. kvs_hits_update hs r [0..<10]) (replicate 10 []) rs ! 0) /
           real (length rs) = spec_hits_single 1 (map Suc rs)"
    "sum_list (foldl (\<lambda>hs r. kvs_hits_update hs r [0..<10]) (replicate 10 []) rs ! 2) /
           real (length rs) = spec_hits_single 3 (map Suc rs)"
    "sum_list (foldl (\<lambda>hs r. kvs_hits_update hs r [0..<10]) (replicate 10 []) rs ! 9) /
           real (length rs) = spec_hits_single 10 (map Suc rs)"
    using kvs_hits_spec [of 0 rs] kvs_hits_spec [of 2 rs] kvs_hits_spec [of 9 rs]
    by simp_all
  from assms(3) len have "rs \<noteq> []" by auto
  then show ?thesis
    using assms(1) kvs_loop_ranks [OF assms(2), of "replicate 10 []" "[]"] h
    by (simp add: evaluate_lp_k_vs_all_def Let_def len spec_mrr_single_def)
qed

lemma evaluate_lp_k_vs_all_Inr:
  assumes "snd (evaluate_lp_k_vs_all srt st model triple_idx form) = Inr res"
  shows "\<exists>data rs. deserialize_index_data st = Inr data \<and>
           map (kvs_rank srt (model_eval model) form data) triple_idx = map Inr rs \<and>
           triple_idx \<noteq> []"
proof -
  from assms obtain data where d: "deserialize_index_data st = Inr data"
    by (auto simp: evaluate_lp_k_vs_all_def Let_def split: sum.splits)
  with assms obtain x where
    x: "kvs_loop srt (model_eval model) form data triple_idx (replicate 10 []) [] = Inr x"
    by (auto simp: evaluate_lp_k_vs_all_def Let_def split: sum.splits)
  from assms d x have "triple_idx \<noteq> []"
    by (auto simp: evaluate_lp_k_vs_all_def Let_def split: sum.splits prod.splits if_splits)
  with d kvs_loop_Inr [OF x] show ?thesis by blast
qed

lemma length_filter_mono:
  "(\<And>x. P x \<Longrightarrow> Q x) \<Longrightarrow> length (filter P xs) \<le> length (filter Q xs)"
  by (induction xs) auto

lemma spec_hits_entity_mono: "j \<le> k \<Longrightarrow> spec_hits_entity j ranks \<le> spec_hits_entity k ranks"
proof -
  assume jk: "j \<le> k"
  have "length (filter (\<lambda>(h, t). h \<le> j) ranks) \<le> length (filter (\<lambda>(h, t). h \<le> k) ranks)"
    using jk by (intro length_filter_mono) auto
  moreover have "length (filter (\<lambda>(h, t). t \<le> j) ranks) \<le> length (filter (\<lambda>(h, t). t \<le> k) ranks)"
    using jk by (intro length_filter_mono) auto
  ultimately have "real (length (filter (\<lambda>(h, t). h \<le> j) ranks) + length (filter (\<lambda>(h, t). t \<le> j) ranks))
      \<le> real (length (filter (\<lambda>(h, t). h \<le> k) ranks) + length (filter (\<lambda>(h, t). t \<le> k) ranks))"
    by simp
  then show ?thesis
    unfolding spec_hits_entity_def by (rule divide_right_mono) simp
qed

lemma spec_hits_single_mono: "j \<le> k \<Longrightarrow> spec_hits_single j ranks \<le> spec_hits_single k ranks"
proof -
  assume jk: "j \<le> k"
  have "length (filter (\<lambda>r. r \<le> j) ranks) \<le> length (filter (\<lambda>r. r \<le> k) ranks)"
    using jk by (intro length_filter_mono) auto
  then have "real (length (filter (\<lambda>r. r \<le> j) ranks)) \<le> real (length (filter (\<lambda>r. r \<le> k) ranks))"
    by simp
  then show ?thesis
    unfolding spec_hits_single_def by (rule divide_right_mono) simp
qed

lemma upt2: "[0..<2] = [0, 1]"
  by (simp add: upt_rec)

lemmas two_defs = two_model_def two_scores_def two_storage_def deserialize_index_data_def

lemma two_data: "deserialize_index_data two_storage = Inr [(0, 0, 1)]"
  by (simp add: two_defs)

lemma two_lp_ranks:
  "map (lp_ranks stable_sort_desc (model_eval two_model) 2 [(0, 0, 1)]) [(0, 0, 1)] = map Inr [(2, 1)]"
  by (simp add: two_defs scen_defs upt2)

lemma two_kvs_rank:
  "map (kvs_rank stable_sort_desc (model_eval two_model) ''EntityPrediction'' [(0, 0, 1)]) [(0, 0, 1)]
     = map Inr [0]"
  by (simp add: two_defs scen_defs)

lemma two_kvs_rank_rel:
  "map (kvs_rank stable_sort_desc (model_eval two_model) ''RelationPrediction'' [(0, 0, 1)]) [(0, 0, 1)]
     = map Inr [0]"
  by (simp add: two_defs scen_defs)

lemma two_kvs_result:
  "snd (evaluate_lp_k_vs_all stable_sort_desc two_storage two_model [(0, 0, 1)] ''EntityPrediction'')
     = Inr \<lparr>H_at_1 = 1, H_at_3 = 1, H_at_10 = 1, MRR = 1\<rparr>"
  using evaluate_lp_k_vs_all_result [OF two_data two_kvs_rank]
  by (simp add: spec_hits_single_def spec_mrr_single_def)

lemma two_lp_result:
  "snd (evaluate_lp stable_sort_desc two_storage 2 two_model [(0, 0, 1)])
     = Inr \<lparr>H_at_1 = 1 / 2, H_at_3 = 1, H_at_10 = 1, MRR = 3 / 4\<rparr>"
  using evaluate_lp_result [OF two_data two_lp_ranks]
  by (simp add: spec_hits_entity_def spec_mrr_entity_def)

subsection \<open>Hits@K\<close>

text \<open>
  C2, as stated, does not hold for \<open>evaluate_lp_k_vs_all\<close> with entity labelling: for
  the query \<open>(0,0,1)\<close> of the second run its tail rank is 1 and its head rank, computed as
  \<open>evaluate_lp\<close> does from the same scores, is 2, so Hits@1 over both ranks and twice the
  number of query triples is \<open>1/2\<close>; the evaluator returns \<open>1\<close>.
\<close>

theorem hits_k_vs_all_counterexample:
  "snd (evaluate_lp_k_vs_all stable_sort_desc two_storage two_model [(0, 0, 1)] ''EntityPrediction'')
     = Inr \<lparr>H_at_1 = 1, H_at_3 = 1, H_at_10 = 1, MRR = 1\<rparr> \<and>
   lp_ranks stable_sort_desc (model_eval two_model) 2 [(0, 0, 1)] (0, 0, 1) = Inr (2, 1) \<and>
   spec_hits_entity 1 [(2, 1)] = 1 / 2 \<and>
   H_at_1 (projr (snd (evaluate_lp_k_vs_all stable_sort_desc two_storage two_model [(0, 0, 1)]
     ''EntityPrediction''))) \<noteq> spec_hits_entity 1 [(2, 1)]"
  using two_kvs_result two_lp_ranks by (simp add: spec_hits_entity_def)

text \<open>
  C2, amended. \<open>evaluate_lp\<close> computes for every query triple a head rank and a tail rank,
  counts both in the tallies and divides every Hits@K by twice the number of query triples.
  \<open>evaluate_lp_k_vs_all\<close> computes one rank per query triple (the tail rank under entity
  labelling, the relation rank under relation labelling) and divides every Hits@K by the
  number of query triples.
\<close>

theorem hits_tallies:
  "(deserialize_index_data st = Inr data \<and>
    map (lp_ranks srt (model_eval model) ne data) triple_idx = map Inr ranks \<and>
    triple_idx \<noteq> [] \<longrightarrow>
      length ranks = length triple_idx \<and>
      (\<exists>res. snd (evaluate_lp srt st ne model triple_idx) = Inr res \<and>
         H_at_1 res = spec_hits_entity 1 ranks \<and>
         H_at_3 res = spec_hits_entity 3 ranks \<and>
         H_at_10 res = spec_hits_entity 10 ranks)) \<and>
   (deserialize_index_data st = Inr data \<and>
    map (kvs_rank srt (model_eval model) form data) triple_idx = map Inr rs \<and>
    triple_idx \<noteq> [] \<longrightarrow>
      length rs = length triple_idx \<and>
      (\<exists>res. snd (evaluate_lp_k_vs_all srt st model triple_idx form) = Inr res \<and>
         H_at_1 res = spec_hits_single 1 (map Suc rs) \<and>
         H_at_3 res = spec_hits_single 3 (map Suc rs) \<and>
         H_at_10 res = spec_hits_single 10 (map Suc rs)))"
proof (intro conjI impI)
  assume a: "deserialize_index_data st = Inr data \<and>
    map (lp_ranks srt (model_eval model) ne data) triple_idx = map Inr ranks \<and> triple_idx \<noteq> []"
  then show "length ranks = length triple_idx" by (metis length_map)
  from a evaluate_lp_result [of st data srt model ne triple_idx ranks]
  show "\<exists>res. snd (evaluate_lp srt st ne model triple_idx) = Inr res \<and>
         H_at_1 res = spec_hits_entity 1 ranks \<and>
         H_at_3 res = spec_hits_entity 3 ranks \<and>
         H_at_10 res = spec_hits_entity 10 ranks" by simp
next
  assume a: "deserialize_index_data st = Inr data \<and>
    map (kvs_rank srt (model_eval model) form data) triple_idx = map Inr rs \<and> triple_idx \<noteq> []"
  then show "length rs = length triple_idx" by (metis length_map)
  from a evaluate_lp_k_vs_all_result [of st data srt model form triple_idx rs]
  show "\<exists>res. snd (evaluate_lp_k_vs_all srt st model triple_idx form) = Inr res \<and>
         H_at_1 res = spec_hits_single 1 (map Suc rs) \<and>
         H_at_3 res = spec_hits_single 3 (map Suc rs) \<and>
         H_at_10 res = spec_hits_single 10 (map Suc rs)" by simp
qed

theorem hits_tallies_witness:
  "deserialize_index_data two_storage = Inr [(0, 0, 1)] \<and>
   map (lp_ranks stable_sort_desc (model_eval two_model) 2 [(0, 0, 1)]) [(0, 0, 1)] = map Inr [(2, 1)] \<and>
   map (kvs_rank stable_sort_desc (model_eval two_model) ''EntityPrediction'' [(0, 0, 1)]) [(0, 0, 1)]
     = map Inr [0] \<and>
   (\<exists>res. snd (evaluate_lp stable_sort_desc two_storage 2 two_model [(0, 0, 1)]) = Inr res \<and>
      H_at_1 res = 1 / 2 \<and> H_at_3 res = 1 \<and> H_at_10 res = 1) \<and>
   (\<exists>res. snd (evaluate_lp_k_vs_all stable_sort_desc two_storage two_model [(0, 0, 1)]
              ''EntityPrediction'') = Inr res \<and>
      H_at_1 res = 1 \<and> H_at_3 res = 1 \<and> H_at_10 res = 1)"
  using two_data two_lp_ranks two_kvs_rank
    hits_tallies [of two_storage "[(0, 0, 1)]" stable_sort_desc two_model 2 "[(0, 0, 1)]"
      "[(2, 1)]" "''EntityPrediction''" "[0]"]
  by (simp add: spec_hits_entity_def spec_hits_single_def)

subsection \<open>Mean reciprocal rank\<close>

text \<open>
  C5, as stated, does not hold for \<open>evaluate_lp_k_vs_all\<close> with entity labelling: for
  the query \<open>(0,0,1)\<close> of the second run, with head rank 2 and tail rank 1, the sum of
  \<open>1/head_rank + 1/tail_rank\<close> over twice the number of query triples is \<open>3/4\<close>; the
  evaluator returns the mean of \<open>1/tail_rank\<close>, which is \<open>1\<close>.
\<close>

theorem mrr_k_vs_all_counterexample:
  "map_sum id MRR
     (snd (evaluate_lp_k_vs_all stable_sort_desc two_storage two_model [(0, 0, 1)]
        ''EntityPrediction'')) = Inr 1 \<and>
   lp_ranks stable_sort_desc (model_eval two_model) 2 [(0, 0, 1)] (0, 0, 1) = Inr (2, 1) \<and>
   spec_mrr_entity [(2, 1)] = 3 / 4 \<and>
   MRR (projr (snd (evaluate_lp_k_vs_all stable_sort_desc two_storage two_model [(0, 0, 1)]
     ''EntityPrediction''))) \<noteq> spec_mrr_entity [(2, 1)]"
  using two_kvs_result two_lp_ranks by (simp add: spec_mrr_entity_def)

text \<open>
  C5, amended. The mean reciprocal rank that \<open>evaluate_lp\<close> returns is the sum over the
  query triples of \<open>1/head_rank + 1/tail_rank\<close> divided by twice their number. The one
  that \<open>evaluate_lp_k_vs_all\<close> returns is, under either labelling, the arithmetic mean
  over the query triples of \<open>1/rank\<close>, the rank being the relation rank under relation
  labelling and the tail rank otherwise.
\<close>

theorem mrr_value:
  "(deserialize_index_data st = Inr data \<and>
    map (lp_ranks srt (model_eval model) ne data) triple_idx = map Inr ranks \<and>
    triple_idx \<noteq> [] \<longrightarrow>
      length ranks = length triple_idx \<and>
      map_sum id MRR (snd (evaluate_lp srt st ne model triple_idx)) =
        Inr (spec_mrr_entity ranks)) \<and>
   (deserialize_index_data st = Inr data \<and>
    map (kvs_rank srt (model_eval model) form data) triple_idx = map Inr rs \<and>
    triple_idx \<noteq> [] \<longrightarrow>
      length rs = length triple_idx \<and>
      map_sum id MRR (snd (evaluate_lp_k_vs_all srt st model triple_idx form)) =
        Inr (spec_mrr_single (map Suc rs)))"
proof (intro conjI impI)
  assume a: "deserialize_index_data st = Inr data \<and>
    map (lp_ranks srt (model_eval model) ne data) triple_idx = map Inr ranks \<and> triple_idx \<noteq> []"
  then show "length ranks = length triple_idx" by (metis length_map)
  from a evaluate_lp_result [of st data srt model ne triple_idx ranks]
  show "map_sum id MRR (snd (evaluate_lp srt st ne model triple_idx)) =
        Inr (spec_mrr_entity ranks)" by simp
next
  assume a: "deserialize_index_data st = Inr data \<and>
    map (kvs_rank srt (model_eval model) form data) triple_idx = map Inr rs \<and> triple_idx \<noteq> []"
  then show "length rs = length triple_idx" by (metis length_map)
  from a evaluate_lp_k_vs_all_result [of st data srt model form triple_idx rs]
  show "map_sum id MRR (snd (evaluate_lp_k_vs_all srt st model triple_idx form)) =
        Inr (spec_mrr_single (map Suc rs))" by simp
qed

theorem mrr_value_witness:
  "deserialize_index_data two_storage = Inr [(0, 0, 1)] \<and>
   map (lp_ranks stable_sort_desc (model_eval two_model) 2 [(0, 0, 1)]) [(0, 0, 1)] = map Inr [(2, 1)] \<and>
   map (kvs_rank stable_sort_desc (model_eval two_model) ''RelationPrediction'' [(0, 0, 1)]) [(0, 0, 1)]
     = map Inr [0] \<and>
   map_sum id MRR (snd (evaluate_lp stable_sort_desc two_storage 2 two_model [(0, 0, 1)])) =
     Inr (3 / 4) \<and>
   map_sum id MRR (snd (evaluate_lp_k_vs_all stable_sort_desc two_storage two_model [(0, 0, 1)]
     ''RelationPrediction'')) = Inr 1"
  using two_data two_lp_ranks two_kvs_rank_rel
    mrr_value [of two_storage "[(0, 0, 1)]" stable_sort_desc two_model 2 "[(0, 0, 1)]"
      "[(2, 1)]" "''RelationPrediction''" "[0]"]
  by (simp add: spec_mrr_entity_def spec_mrr_single_def)

subsection \<open>Monotonicity of Hits@K\<close>

text \<open>
  C6. Whenever either evaluator returns metrics, under any labelling, they satisfy
  H@1 \<open>\<le>\<close> H@3 \<open>\<le>\<close> H@10. (With no query triple no metrics are returned: the first
  division raises ZeroDivisionError.)
\<close>

theorem hits_monotone:
  "(snd (evaluate_lp srt st ne model triple_idx) = Inr res \<longrightarrow>
      H_at_1 res \<le> H_at_3 res \<and> H_at_3 res \<le> H_at_10 res) \<and>
   (snd (evaluate_lp_k_vs_all srt st model triple_idx form) = Inr res' \<longrightarrow>
      H_at_1 res' \<le> H_at_3 res' \<and> H_at_3 res' \<le> H_at_10 res')"
proof (intro conjI impI)
  assume a: "snd (evaluate_lp srt st ne model triple_idx) = Inr res"
  from evaluate_lp_Inr [OF a] obtain data ranks where
    "deserialize_index_data st = Inr data"
    "map (lp_ranks srt (model_eval model) ne data) triple_idx = map Inr ranks"
    "triple_idx \<noteq> []" by blast
  from evaluate_lp_result [OF this] a
  have res: "res = \<lparr>H_at_1 = spec_hits_entity 1 ranks, H_at_3 = spec_hits_entity 3 ranks,
          H_at_10 = spec_hits_entity 10 ranks, MRR = spec_mrr_entity ranks\<rparr>" by simp
  show "H_at_1 res \<le> H_at_3 res" by (simp add: res spec_hits_entity_mono)
  show "H_at_3 res \<le> H_at_10 res" by (simp add: res spec_hits_entity_mono)
next
  assume a: "snd (evaluate_lp_k_vs_all srt st model triple_idx form) = Inr res'"
  from evaluate_lp_k_vs_all_Inr [OF a] obtain data rs where
    "deserialize_index_data st = Inr data"
    "map (kvs_rank srt (model_eval model) form data) triple_idx = map Inr rs"
    "triple_idx \<noteq> []" by blast
  from evaluate_lp_k_vs_all_result [OF this] a
  have res: "res' = \<lparr>H_at_1 = spec_hits_single 1 (map Suc rs),
          H_at_3 = spec_hits_single 3 (map Suc rs),
          H_at_10 = spec_hits_single 10 (map Suc rs), MRR = spec_mrr_single (map Suc rs)\<rparr>"
    by simp
  show "H_at_1 res' \<le> H_at_3 res'" by (simp add: res spec_hits_single_mono)
  show "H_at_3 res' \<le> H_at_10 res'" by (simp add: res spec_hits_single_mono)
qed

theorem hits_monotone_witness:
  "snd (evaluate_lp stable_sort_desc two_storage 2 two_model [(0, 0, 1)])
     = Inr \<lparr>H_at_1 = 1 / 2, H_at_3 = 1, H_at_10 = 1, MRR = 3 / 4\<rparr> \<and>
   snd (evaluate_lp_k_vs_all stable_sort_desc two_storage two_model [(0, 0, 1)] ''EntityPrediction'')
     = Inr \<lparr>H_at_1 = 1, H_at_3 = 1, H_at_10 = 1, MRR = 1\<rparr> \<and>
   (1 / 2 :: real) \<le> 1 \<and> (1 :: real) \<le> 1"
  using two_lp_result two_kvs_result
    hits_monotone [of stable_sort_desc two_storage 2 two_model "[(0, 0, 1)]"
      "\<lparr>H_at_1 = 1 / 2, H_at_3 = 1, H_at_10 = 1, MRR = 3 / 4\<rparr>" "''EntityPrediction''"
      "\<lparr>H_at_1 = 1, H_at_3 = 1, H_at_10 = 1, MRR = 1\<rparr>"]
  by simp

subsection \<open>The training loop\<close>

lemma set_training_state_fields [simp]:
  "gpu_id (set_training_state self p opt) = gpu_id self"
  "loss_history (module (ddp_model (set_training_state self p opt))) =
     loss_history (module (ddp_model self))"
  "callback_log (set_training_state self p opt) = callback_log self"
  "callbacks (set_training_state self p opt) = callbacks self"
  "num_epochs (set_training_state self p opt) = num_epochs self"
  "train_dataset_loader (set_training_state self p opt) = train_dataset_loader self"
  "trainer_loss_history (set_training_state self p opt) = trainer_loss_history self"
  "ddp_loss_history (ddp_model (set_training_state self p opt)) = ddp_loss_history (ddp_model self)"
  by (simp_all add: set_training_state_def)

lemma epoch_loop_result:
  "epoch_loop self epoch ezs l i = Inr (self', l', i') \<Longrightarrow>
   l' = l + sum_list (batch_losses self epoch ezs) \<and>
   length (batch_losses self epoch ezs) = length ezs \<and>
   i' = (if ezs = [] then i else fst (last ezs)) \<and>
   same_bookkeeping self self'"
proof (induction ezs arbitrary: self l i)
  case Nil
  then show ?case by (simp add: same_bookkeeping_def)
next
  case (Cons jz rest)
  obtain j z where jz: "jz = (j, z)" by (cases jz)
  from Cons.prems jz obtain src tgt where
    ex: "extract_input_outputs (gpu_id self) z = Inr (src, tgt)"
    by (auto split: sum.splits)
  obtain p opt bl where
    st: "run_batch self epoch j (state_dict (module (ddp_model self))) (optimizer self) src tgt
           = (p, opt, bl)" by (cases "run_batch self epoch j (state_dict (module (ddp_model self)))
             (optimizer self) src tgt") auto
  from Cons.prems jz ex st have
    "epoch_loop (set_training_state self p opt) epoch rest (l + bl) j = Inr (self', l', i')"
    by simp
  from Cons.IH [OF this] jz ex st show ?case
    by (auto simp: same_bookkeeping_def)
qed

lemma last_enumerate:
  "zs \<noteq> [] \<Longrightarrow> fst (last (enumerate 0 zs)) = length zs - 1"
  by (simp add: enumerate_eq_zip last_zip last_conv_nth)

lemma run_epoch_result:
  assumes "run_epoch self epoch = Inr (self', l)"
    and "train_dataset_loader self epoch \<noteq> []"
  shows "l = sum_list (batch_losses self epoch (enumerate 0 (train_dataset_loader self epoch))) /
             real (length (train_dataset_loader self epoch)) \<and>
         length (batch_losses self epoch (enumerate 0 (train_dataset_loader self epoch))) =
           length (train_dataset_loader self epoch) \<and>
         same_bookkeeping self self'"
proof -
  let ?zs = "train_dataset_loader self epoch"
  from assms(1) obtain el i where
    loop: "epoch_loop self epoch (enumerate 0 ?zs) 0 0 = Inr (self', el, i)"
    and l: "l = el / real (i + 1)"
    by (auto simp: run_epoch_def split: sum.splits)
  from assms(2) have ne: "enumerate 0 ?zs \<noteq> []" by (simp add: enumerate_eq_zip)
  from epoch_loop_result [OF loop] ne last_enumerate [OF assms(2)]
  have "el = sum_list (batch_losses self epoch (enumerate 0 ?zs))"
    and "length (batch_losses self epoch (enumerate 0 ?zs)) = length ?zs"
    and "i = length ?zs - 1" and "same_bookkeeping self self'" by simp_all
  moreover from assms(2) have "length ?zs - 1 + 1 = length ?zs" by (cases ?zs) simp_all
  ultimately show ?thesis using l by simp
qed

lemma run_epoch_bookkeeping:
  "run_epoch self epoch = Inr (self', l) \<Longrightarrow> same_bookkeeping self self'"
  using epoch_loop_result [of self epoch "enumerate 0 (train_dataset_loader self epoch)" 0 0]
  by (auto simp: run_epoch_def split: sum.splits)

lemma call_on_train_epoch_end_log:
  "callback_log (call_on_train_epoch_end self cs) =
     callback_log self @ map (\<lambda>c. (c, module (ddp_model self))) cs \<and>
   ddp_model (call_on_train_epoch_end self cs) = ddp_model self \<and>
   gpu_id (call_on_train_epoch_end self cs) = gpu_id self \<and>
   callbacks (call_on_train_epoch_end self cs) = callbacks self \<and>
   num_epochs (call_on_train_epoch_end self cs) = num_epochs self \<and>
   trainer_loss_history (call_on_train_epoch_end self cs) = trainer_loss_history self \<and>
   train_dataset_loader (call_on_train_epoch_end self cs) = train_dataset_loader self"
  by (induction cs arbitrary: self) simp_all

lemma train_epoch_rank0:
  assumes "train_epoch self epoch = Inr self'" and "gpu_id self = 0"
  shows "\<exists>l s. run_epoch self epoch = Inr (s, l) \<and>
           loss_history (module (ddp_model self')) = loss_history (module (ddp_model self)) @ [l] \<and>
           callback_log self' =
             callback_log self @ map (\<lambda>c. (c, module (ddp_model self'))) (callbacks self) \<and>
           gpu_id self' = gpu_id self \<and> callbacks self' = callbacks self \<and>
           trainer_loss_history self' = trainer_loss_history self"
proof -
  from assms(1) obtain s l where re: "run_epoch self epoch = Inr (s, l)"
    by (auto simp: train_epoch_def split: sum.splits)
  from run_epoch_bookkeeping [OF re] have sb: "same_bookkeeping self s" .
  with assms(2) have g: "gpu_id s = 0" by (simp add: same_bookkeeping_def)
  let ?s' = "s\<lparr>ddp_model := (ddp_model s)
               \<lparr>module := (module (ddp_model s))
                  \<lparr>loss_history := loss_history (module (ddp_model s)) @ [l]\<rparr>\<rparr>\<rparr>"
  from assms(1) re g have "self' = call_on_train_epoch_end ?s' (callbacks ?s')"
    by (simp add: train_epoch_def Let_def)
  with call_on_train_epoch_end_log [of ?s' "callbacks ?s'"] sb re show ?thesis
    by (simp add: same_bookkeeping_def)
qed

lemma train_epoch_other:
  assumes "train_epoch self epoch = Inr self'" and "gpu_id self \<noteq> 0"
  shows "same_bookkeeping self self'"
proof -
  from assms(1) obtain s l where re: "run_epoch self epoch = Inr (s, l)"
    by (auto simp: train_epoch_def split: sum.splits)
  from run_epoch_bookkeeping [OF re] have sb: "same_bookkeeping self s" .
  with assms(2) have "gpu_id s \<noteq> 0" by (simp add: same_bookkeeping_def)
  with assms(1) re have "self' = s" by (simp add: train_epoch_def)
  with sb show ?thesis by simp
qed

lemma train_loop_other:
  "train_loop self epochs = Inr self' \<Longrightarrow> gpu_id self \<noteq> 0 \<Longrightarrow> same_bookkeeping self self'"
proof (induction epochs arbitrary: self)
  case Nil
  then show ?case by (simp add: same_bookkeeping_def)
next
  case (Cons epoch epochs)
  from Cons.prems(1) obtain s where s: "train_epoch self epoch = Inr s"
    and rest: "train_loop s epochs = Inr self'" by (auto split: sum.splits)
  from train_epoch_other [OF s Cons.prems(2)] have sb: "same_bookkeeping self s" .
  with Cons.prems(2) have "gpu_id s \<noteq> 0" by (simp add: same_bookkeeping_def)
  from Cons.IH [OF rest this] sb show ?case by (simp add: same_bookkeeping_def)
qed

lemma train_loop_rank0:
  "train_loop self epochs = Inr self' \<Longrightarrow> gpu_id self = 0 \<Longrightarrow>
   length (loss_history (module (ddp_model self'))) =
     length (loss_history (module (ddp_model self))) + length epochs \<and>
   length (callback_log self') =
     length (callback_log self) + length epochs * length (callbacks self) \<and>
   trainer_loss_history self' = trainer_loss_history self"
proof (induction epochs arbitrary: self)
  case Nil
  then show ?case by simp
next
  case (Cons epoch epochs)
  from Cons.prems(1) obtain s where s: "train_epoch self epoch = Inr s"
    and rest: "train_loop s epochs = Inr self'" by (auto split: sum.splits)
  from train_epoch_rank0 [OF s Cons.prems(2)] obtain l where
    f: "loss_history (module (ddp_model s)) = loss_history (module (ddp_model self)) @ [l]"
       "callback_log s = callback_log self @ map (\<lambda>c. (c, module (ddp_model s))) (callbacks self)"
       "gpu_id s = gpu_id self" "callbacks s = callbacks self"
       "trainer_loss_history s = trainer_loss_history self" by blast
  from f(3) Cons.prems(2) have "gpu_id s = 0" by simp
  from Cons.IH [OF rest this] f show ?case by simp
qed

text \<open>
  C7. At the end of an epoch with at least one batch, the worker of rank 0 appends to the
  loss history of the unwrapped model the mean of the losses of its own batches (their
  sum divided by the number of batches) and calls every registered callback, in order,
  with the unwrapped model. A worker of another rank leaves the loss history and the
  record of callback calls as they were, in every epoch and so over the whole of
  \<open>train\<close>; over the whole of \<open>train\<close> rank 0 appends one loss and makes one round of
  callback calls per epoch.
\<close>

theorem epoch_end_bookkeeping:
  "(train_epoch self epoch = Inr self' \<and> gpu_id self = 0 \<and>
    train_dataset_loader self epoch \<noteq> [] \<longrightarrow>
      loss_history (module (ddp_model self')) =
        loss_history (module (ddp_model self)) @
          [sum_list (batch_losses self epoch (enumerate 0 (train_dataset_loader self epoch))) /
           real (length (train_dataset_loader self epoch))] \<and>
      length (batch_losses self epoch (enumerate 0 (train_dataset_loader self epoch))) =
        length (train_dataset_loader self epoch) \<and>
      callback_log self' =
        callback_log self @ map (\<lambda>c. (c, module (ddp_model self'))) (callbacks self)) \<and>
   (train_epoch self epoch = Inr self' \<and> gpu_id self \<noteq> 0 \<longrightarrow>
      loss_history (module (ddp_model self')) = loss_history (module (ddp_model self)) \<and>
      callback_log self' = callback_log self) \<and>
   (train self = Inr self'' \<and> gpu_id self \<noteq> 0 \<longrightarrow>
      loss_history (module (ddp_model self'')) = loss_history (module (ddp_model self)) \<and>
      callback_log self'' = callback_log self) \<and>
   (train self = Inr self'' \<and> gpu_id self = 0 \<longrightarrow>
      length (loss_history (module (ddp_model self''))) =
        length (loss_history (module (ddp_model self))) + num_epochs self \<and>
      length (callback_log self'') =
        length (callback_log self) + num_epochs self * length (callbacks self))"
proof (intro conjI impI)
  assume a: "train_epoch self epoch = Inr self' \<and> gpu_id self = 0 \<and>
    train_dataset_loader self epoch \<noteq> []"
  then have te: "train_epoch self epoch = Inr self'" and g: "gpu_id self = 0"
    and ne: "train_dataset_loader self epoch \<noteq> []" by simp_all
  from train_epoch_rank0 [OF te g] obtain l s where
    re: "run_epoch self epoch = Inr (s, l)"
    and lh: "loss_history (module (ddp_model self')) = loss_history (module (ddp_model self)) @ [l]"
    and cl: "callback_log self' =
             callback_log self @ map (\<lambda>c. (c, module (ddp_model self'))) (callbacks self)"
    by blast
  from run_epoch_result [OF re ne] have
    l: "l = sum_list (batch_losses self epoch (enumerate 0 (train_dataset_loader self epoch))) /
             real (length (train_dataset_loader self epoch))"
    and len: "length (batch_losses self epoch (enumerate 0 (train_dataset_loader self epoch))) =
           length (train_dataset_loader self epoch)" by simp_all
  from lh l show "loss_history (module (ddp_model self')) =
        loss_history (module (ddp_model self)) @
          [sum_list (batch_losses self epoch (enumerate 0 (train_dataset_loader self epoch))) /
           real (length (train_dataset_loader self epoch))]" by simp
  from len show "length (batch_losses self epoch (enumerate 0 (train_dataset_loader self epoch))) =
        length (train_dataset_loader self epoch)" .
  from cl show "callback_log self' =
        callback_log self @ map (\<lambda>c. (c, module (ddp_model self'))) (callbacks self)" .
next
  assume a: "train_epoch self epoch = Inr self' \<and> gpu_id self \<noteq> 0"
  then have sb: "same_bookkeeping self self'" using train_epoch_other by blast
  from sb show "loss_history (module (ddp_model self')) = loss_history (module (ddp_model self))"
    by (simp add: same_bookkeeping_def)
  from sb show "callback_log self' = callback_log self" by (simp add: same_bookkeeping_def)
next
  assume a: "train self = Inr self'' \<and> gpu_id self \<noteq> 0"
  then have sb: "same_bookkeeping self self''"
    using train_loop_other [of self "[0..<num_epochs self]" self''] by (simp add: train_def)
  from sb show "loss_history (module (ddp_model self'')) = loss_history (module (ddp_model self))"
    by (simp add: same_bookkeeping_def)
  from sb show "callback_log self'' = callback_log self" by (simp add: same_bookkeeping_def)
next
  assume a: "train self = Inr self'' \<and> gpu_id self = 0"
  then have r: "length (loss_history (module (ddp_model self''))) =
     length (loss_history (module (ddp_model self))) + length [0..<num_epochs self] \<and>
   length (callback_log self'') =
     length (callback_log self) + length [0..<num_epochs self] * length (callbacks self)"
    using train_loop_rank0 [of self "[0..<num_epochs self]" self''] by (simp add: train_def)
  from r show "length (loss_history (module (ddp_model self''))) =
        length (loss_history (module (ddp_model self))) + num_epochs self" by simp
  from r show "length (callback_log self'') =
        length (callback_log self) + num_epochs self * length (callbacks self)" by simp
qed

subsection \<open>The concrete launch\<close>

lemmas launch_defs = launch_trainer_def launch_model_def launch_loaders_def launch_step_def
  DDPTrainer_init_def train_def train_epoch_def run_epoch_def set_training_state_def
  to_device_def enumerate_eq_zip

lemma launch_epoch_rank0:
  "train_epoch (launch_trainer 0) 0 =
     Inr ((launch_trainer 0)
           \<lparr>ddp_model := \<lparr>module = \<lparr>state_dict = 2, loss_history = [3 / 2]\<rparr>,
                          ddp_loss_history = None\<rparr>,
            callback_log := [(''cb'', \<lparr>state_dict = 2, loss_history = [3 / 2]\<rparr>)]\<rparr>)"
  by (simp add: launch_defs upt2 Let_def)

lemma launch_epoch_rank1:
  "train_epoch (launch_trainer 1) 0 =
     Inr ((launch_trainer 1)
           \<lparr>ddp_model := \<lparr>module = \<lparr>state_dict = 2, loss_history = []\<rparr>,
                          ddp_loss_history = None\<rparr>\<rparr>)"
  by (simp add: launch_defs upt2 Let_def)

lemma launch_train_rank0:
  "train (launch_trainer 0) =
     Inr ((launch_trainer 0)
           \<lparr>ddp_model := \<lparr>module = \<lparr>state_dict = 4, loss_history = [3 / 2, 3 / 2]\<rparr>,
                          ddp_loss_history = None\<rparr>,
            callback_log := [(''cb'', \<lparr>state_dict = 2, loss_history = [3 / 2]\<rparr>),
                             (''cb'', \<lparr>state_dict = 4, loss_history = [3 / 2, 3 / 2]\<rparr>)]\<rparr>)"
  by (simp add: launch_defs upt2 Let_def)

lemma launch_train_rank1:
  "train (launch_trainer 1) =
     Inr ((launch_trainer 1)
           \<lparr>ddp_model := \<lparr>module = \<lparr>state_dict = 4, loss_history = []\<rparr>,
                          ddp_loss_history = None\<rparr>\<rparr>)"
  by (simp add: launch_defs upt2 Let_def)


theorem epoch_end_bookkeeping_witness:
  "gpu_id (launch_trainer 0) = 0 \<and> gpu_id (launch_trainer 1) \<noteq> 0 \<and>
   train_dataset_loader (launch_trainer 0) 0 \<noteq> [] \<and>
   \<not> isl (train_epoch (launch_trainer 0) 0) \<and> \<not> isl (train_epoch (launch_trainer 1) 0) \<and>
   \<not> isl (train (launch_trainer 0)) \<and> \<not> isl (train (launch_trainer 1)) \<and>
   loss_history (module (ddp_model (projr (train_epoch (launch_trainer 0) 0)))) = [3 / 2] \<and>
   callback_log (projr (train_epoch (launch_trainer 0) 0)) =
     [(''cb'', \<lparr>state_dict = 2, loss_history = [3 / 2]\<rparr>)] \<and>
   loss_history (module (ddp_model (projr (train_epoch (launch_trainer 1) 0)))) = [] \<and>
   callback_log (projr (train_epoch (launch_trainer 1) 0)) = [] \<and>
   loss_history (module (ddp_model (projr (train (launch_trainer 0))))) = [3 / 2, 3 / 2] \<and>
   length (callback_log (projr (train (launch_trainer 0)))) = 2 \<and>
   loss_history (module (ddp_model (projr (train (launch_trainer 1))))) = [] \<and>
   callback_log (projr (train (launch_trainer 1))) = []"
proof -
  have e0: "train_epoch (launch_trainer 0) 0 = Inr (projr (train_epoch (launch_trainer 0) 0))"
    by (simp only: launch_epoch_rank0 sum.sel)
  have e1: "train_epoch (launch_trainer 1) 0 = Inr (projr (train_epoch (launch_trainer 1) 0))"
    by (simp only: launch_epoch_rank1 sum.sel)
  have t0: "train (launch_trainer 0) = Inr (projr (train (launch_trainer 0)))"
    by (simp only: launch_train_rank0 sum.sel)
  have t1: "train (launch_trainer 1) = Inr (projr (train (launch_trainer 1)))"
    by (simp only: launch_train_rank1 sum.sel)
  have g: "gpu_id (launch_trainer 0) = 0" "gpu_id (launch_trainer 1) \<noteq> 0"
    "train_dataset_loader (launch_trainer 0) 0 \<noteq> []"
    by (simp_all add: launch_trainer_def DDPTrainer_init_def launch_loaders_def)
  show ?thesis
    using g e0 e1 t0 t1
      epoch_end_bookkeeping [of "launch_trainer 0" 0 "projr (train_epoch (launch_trainer 0) 0)"
        "projr (train (launch_trainer 0))"]
      epoch_end_bookkeeping [of "launch_trainer 1" 0 "projr (train_epoch (launch_trainer 1) 0)"
        "projr (train (launch_trainer 1))"]
    unfolding launch_epoch_rank0 launch_epoch_rank1 launch_train_rank0 launch_train_rank1
    by (simp add: launch_trainer_def DDPTrainer_init_def launch_model_def launch_loaders_def)
qed

subsection \<open>The coordinator\<close>

lemma spawn_one: "spawn fn [0..<1] fs = (case fn 0 fs of Inl e \<Rightarrow> Inl e | Inr (w, fs') \<Rightarrow> Inr fs')"
  by (simp add: upt_rec split: sum.splits)

text \<open>
  Whatever the launch, \<open>fit\<close> hands back the caller's model with the loss history it came
  with: only \<open>state_dict\<close> is read back from the checkpoint file.
\<close>

lemma fit_keeps_loss_history:
  "fit world_size mdl loaders configure_optimizers step cbs epochs model_pt = Inr (mdl', model_pt') \<Longrightarrow>
   loss_history mdl' = loss_history mdl \<and> model_pt' = None"
  by (auto simp: fit_def split: sum.splits option.splits)

lemma launch_worker:
  "distributed_training 0 launch_model launch_loaders launch_configure_optimizers launch_step
     [''cb''] 2 None =
   Inr ((launch_trainer 0)
          \<lparr>ddp_model := \<lparr>module = \<lparr>state_dict = 4, loss_history = [3 / 2, 3 / 2]\<rparr>,
                         ddp_loss_history = Some []\<rparr>,
           callback_log := [(''cb'', \<lparr>state_dict = 2, loss_history = [3 / 2]\<rparr>),
                            (''cb'', \<lparr>state_dict = 4, loss_history = [3 / 2, 3 / 2]\<rparr>)]\<rparr>,
        Some 4)"
proof -
  have "DDPTrainer_init launch_model (launch_loaders 0) (launch_configure_optimizers launch_model)
          0 [''cb''] 2 (launch_step 0) = launch_trainer 0"
    by (simp add: launch_trainer_def launch_configure_optimizers_def)
  then show ?thesis
    using launch_train_rank0
    by (simp add: distributed_training_def Let_def)
       (simp add: launch_trainer_def DDPTrainer_init_def)
qed

text \<open>
  C3, at a launch with one worker and two epochs. After \<open>fit\<close> the caller's model holds
  the parameters that rank 0 wrote to \<open>model.pt\<close> and the file is gone. But the loss
  history of the caller's model is as empty as before, although rank 0 accumulated the
  losses \<open>3/2, 3/2\<close> in its own copy of the model: the worker attaches the trainer's own
  \<open>loss_history\<close>, which nothing ever appends to, to the wrapper of its copy, and only
  the parameters travel back through the file.
\<close>

theorem fit_loses_loss_history:
  "fit 1 launch_model launch_loaders launch_configure_optimizers launch_step [''cb''] 2 None =
     Inr (\<lparr>state_dict = 4, loss_history = []\<rparr>, None) \<and>
   snd (projr (distributed_training 0 launch_model launch_loaders launch_configure_optimizers
     launch_step [''cb''] 2 None)) = Some 4 \<and>
   loss_history (module (ddp_model (fst (projr (distributed_training 0 launch_model launch_loaders
     launch_configure_optimizers launch_step [''cb''] 2 None))))) = [3 / 2, 3 / 2] \<and>
   ddp_loss_history (ddp_model (fst (projr (distributed_training 0 launch_model launch_loaders
     launch_configure_optimizers launch_step [''cb''] 2 None)))) = Some [] \<and>
   trainer_loss_history (fst (projr (distributed_training 0 launch_model launch_loaders
     launch_configure_optimizers launch_step [''cb''] 2 None))) = []"
  using launch_worker
  by (simp add: fit_def spawn_one) (simp add: launch_model_def launch_trainer_def DDPTrainer_init_def)

end
